theory Spec2Isabelle
  imports Main "HOL-Library.Word"
begin

section \<open>Streamed transaction signing: data model\<close>

text \<open>
  The engine of \<^verbatim>\<open>signing.c\<close>: module-level variables become one record, the stage
  enum a datatype, 32- and 64-bit unsigned integers words (so that \<open>+\<close> and \<open>-\<close> wrap as in C).
  A nanopb bytes field (\<^verbatim>\<open>size\<close>, \<^verbatim>\<open>bytes[]\<close>) is the list of its first \<^verbatim>\<open>size\<close> bytes,
  except \<^verbatim>\<open>prev_hash\<close>, whose array is compared whole by \<^verbatim>\<open>memcmp\<close> and keeps both parts.
\<close>

type_synonym u8 = "8 word"
type_synonym u32 = "32 word"
type_synonym u64 = "64 word"
type_synonym bytes = "u8 list"

datatype stage =
    STAGE_REQUEST_1_INPUT
  | STAGE_REQUEST_2_PREV_META
  | STAGE_REQUEST_2_PREV_INPUT
  | STAGE_REQUEST_2_PREV_OUTPUT
  | STAGE_REQUEST_3_OUTPUT
  | STAGE_REQUEST_4_INPUT
  | STAGE_REQUEST_4_OUTPUT
  | STAGE_REQUEST_5_OUTPUT

datatype InputScriptType = InputScriptType_SPENDADDRESS | InputScriptType_SPENDMULTISIG

datatype OutputScriptType =
    OutputScriptType_PAYTOADDRESS
  | OutputScriptType_PAYTOSCRIPTHASH
  | OutputScriptType_PAYTOMULTISIG

datatype OutputAddressType =
    OutputAddressType_SPEND
  | OutputAddressType_TRANSFER
  | OutputAddressType_CHANGE

datatype RequestType =
    RequestType_TXINPUT
  | RequestType_TXOUTPUT
  | RequestType_TXMETA
  | RequestType_TXFINISHED

datatype FailureType =
    Failure_UnexpectedMessage
  | Failure_Other
  | Failure_NotEnoughFunds
  | Failure_ActionCancelled

datatype ButtonRequestType =
    ButtonRequest_Other
  | ButtonRequest_FeeOverThreshold
  | ButtonRequest_ProtectCall
  | ButtonRequest_SignTx
  | ButtonRequest_Address

text \<open>
  The message structs are generated from the protocol definition: a repeated field is a
  counted array (here a list), an optional field comes with a presence flag \<^verbatim>\<open>has_...\<close>.
  The records keep every member, also the flags the engine never reads, since the checksum
  of line 388 hashes the whole struct. An element of \<open>pubkeys\<close> is the content of one
  \<^verbatim>\<open>HDNodePathType\<close>, which the engine only hands to the library.
\<close>

record MultisigRedeemScriptType =
  pubkeys :: "bytes list"
  signatures :: "bytes list"
  has_m :: bool
  m :: u32

record TxInputType =
  address_n :: "u32 list"
  prev_hash_size :: nat
  prev_hash_bytes :: bytes
  prev_index :: u32
  has_script_sig :: bool
  script_sig :: bytes
  has_sequence :: bool
  sequence :: u32
  has_script_type :: bool
  script_type :: InputScriptType
  has_multisig :: bool
  multisig :: MultisigRedeemScriptType

record TxOutputType =
  has_address :: bool
  address :: string
  out_address_n :: "u32 list"
  amount :: u64
  out_script_type :: OutputScriptType
  out_has_multisig :: bool
  out_multisig :: MultisigRedeemScriptType
  has_address_type :: bool
  address_type :: OutputAddressType

record TxOutputBinType =
  bin_amount :: u64
  script_pubkey :: bytes

text \<open>The \<^verbatim>\<open>TxAck\<close> payload: one element of each repeated field and the metadata.\<close>

record TransactionType =
  version :: u32
  inputs :: TxInputType
  bin_outputs :: TxOutputBinType
  outputs :: TxOutputType
  lock_time :: u32
  inputs_cnt :: u32
  outputs_cnt :: u32

record TxRequestDetailsType =
  has_request_index :: bool
  request_index :: u32
  has_tx_hash :: bool
  tx_hash :: bytes

record TxRequestSerializedType =
  has_signature_index :: bool
  signature_index :: u32
  has_signature :: bool
  signature :: bytes
  has_serialized_tx :: bool
  serialized_tx :: bytes

record TxRequest =
  has_request_type :: bool
  request_type :: RequestType
  has_details :: bool
  details :: TxRequestDetailsType
  has_serialized :: bool
  serialized :: TxRequestSerializedType

record CoinType =
  coin_name :: string
  maxfee_kb :: u64
  coin_address_type :: u32

record HDNode =
  depth :: u32
  fingerprint :: u32
  child_num :: u32
  chain_code :: bytes
  private_key :: bytes
  public_key :: bytes

text \<open>What the engine does to the outside world, in the order it does it.\<close>

datatype event =
    MsgWrite TxRequest
  | SendFailure FailureType string
  | GoHome
  | Confirm ButtonRequestType string string
  | Progress

text \<open>
  The libraries the engine calls are not part of the file: hashing, the transaction codec
  (\<^verbatim>\<open>TxStruct\<close> is the type \<open>'txs\<close>, \<^verbatim>\<open>SHA256_CTX\<close> the type \<open>'ctx\<close>), script and
  output compilation, key derivation, ECDSA and the confirmation screen. They are the
  fields of one record of functions; a function that writes through a pointer returns the
  written value next to its C result. \<open>TxInputType_bytes\<close> and \<open>TxOutputBinType_bytes\<close>
  are the \<^verbatim>\<open>sizeof\<close> bytes of a record in memory, which is what the checksum hashes.
\<close>

record ('ctx, 'txs) env =
  sha256_Init :: "'ctx"
  sha256_Update :: "'ctx \<Rightarrow> bytes \<Rightarrow> 'ctx"
  sha256_Final :: "'ctx \<Rightarrow> bytes \<times> 'ctx"
  tx_init :: "u32 \<Rightarrow> u32 \<Rightarrow> u32 \<Rightarrow> u32 \<Rightarrow> bool \<Rightarrow> 'txs"
  inputs_len :: "'txs \<Rightarrow> u32"
  outputs_len :: "'txs \<Rightarrow> u32"
  tx_serialize_input_hash :: "'txs \<Rightarrow> TxInputType \<Rightarrow> u32 \<times> 'txs"
  tx_serialize_output_hash :: "'txs \<Rightarrow> TxOutputBinType \<Rightarrow> u32 \<times> 'txs"
  tx_hash_final :: "'txs \<Rightarrow> bool \<Rightarrow> bytes \<times> 'txs"
  tx_serialize_input :: "'txs \<Rightarrow> TxInputType \<Rightarrow> bytes \<times> 'txs"
  tx_serialize_output :: "'txs \<Rightarrow> TxOutputBinType \<Rightarrow> bytes \<times> 'txs"
  cryptoMultisigFingerprint :: "MultisigRedeemScriptType \<Rightarrow> int \<times> bytes"
  cryptoMultisigPubkeyIndex :: "MultisigRedeemScriptType \<Rightarrow> bytes \<Rightarrow> int"
  compile_output :: "CoinType \<Rightarrow> HDNode \<Rightarrow> TxOutputType \<Rightarrow> bool \<Rightarrow> int \<times> TxOutputBinType"
  compile_script_multisig :: "MultisigRedeemScriptType \<Rightarrow> bytes"
  compile_script_sig :: "u32 \<Rightarrow> bytes \<Rightarrow> bytes"
  serialize_script_multisig :: "MultisigRedeemScriptType \<Rightarrow> bytes"
  serialize_script_sig :: "bytes \<Rightarrow> bytes \<Rightarrow> bytes"
  hdnode_private_ckd_cached :: "HDNode \<Rightarrow> u32 list \<Rightarrow> int \<times> HDNode"
  ecdsa_get_pubkeyhash :: "bytes \<Rightarrow> bytes"
  ecdsa_sign_digest :: "bytes \<Rightarrow> bytes \<Rightarrow> bytes"
  ecdsa_sig_to_der :: "bytes \<Rightarrow> bytes"
  transactionEstimateSizeKb :: "u32 \<Rightarrow> u32 \<Rightarrow> u32"
  coin_amnt_to_str :: "CoinType \<Rightarrow> u64 \<Rightarrow> string"
  confirm :: "ButtonRequestType \<Rightarrow> string \<Rightarrow> string \<Rightarrow> bool"
  TxInputType_bytes :: "TxInputType \<Rightarrow> bytes"
  TxOutputBinType_bytes :: "TxOutputBinType \<Rightarrow> bytes"

text \<open>The private variables of the module, and the trace \<open>out\<close> of its effects.\<close>

record ('ctx, 'txs) state =
  inputs_count :: u32
  outputs_count :: u32
  coin :: CoinType
  root :: HDNode
  node :: HDNode
  signing :: bool
  idx1 :: u32
  idx2 :: u32
  resp :: TxRequest
  input :: TxInputType
  bin_output :: TxOutputBinType
  to :: "'txs"
  tp :: "'txs"
  ti :: "'txs"
  tc :: "'ctx"
  hash :: bytes
  hash_check :: bytes
  privkey :: bytes
  pubkey :: bytes
  sig :: bytes
  to_spend :: u64
  spending :: u64
  change_spend :: u64
  multisig_fp_set :: bool
  multisig_fp_mismatch :: bool
  multisig_fp :: bytes
  signing_stage :: stage
  update_ctr :: int
  out :: "event list"

section \<open>Effects and requests\<close>

definition fsm_sendFailure :: "FailureType \<Rightarrow> string \<Rightarrow> ('ctx, 'txs) state \<Rightarrow> ('ctx, 'txs) state" where
  "fsm_sendFailure k msg s = s\<lparr>out := out s @ [SendFailure k msg]\<rparr>"

definition go_home :: "('ctx, 'txs) state \<Rightarrow> ('ctx, 'txs) state" where
  "go_home s = s\<lparr>out := out s @ [GoHome]\<rparr>"

definition animating_progress_handler :: "('ctx, 'txs) state \<Rightarrow> ('ctx, 'txs) state" where
  "animating_progress_handler s = s\<lparr>out := out s @ [Progress]\<rparr>"

definition msg_write_TxRequest :: "('ctx, 'txs) state \<Rightarrow> ('ctx, 'txs) state" where
  "msg_write_TxRequest s = s\<lparr>out := out s @ [MsgWrite (resp s)]\<rparr>"

text \<open>\<^verbatim>\<open>confirm\<close> shows a screen and returns the user's decision.\<close>

definition do_confirm ::
  "('ctx, 'txs) env \<Rightarrow> ButtonRequestType \<Rightarrow> string \<Rightarrow> string \<Rightarrow> ('ctx, 'txs) state
     \<Rightarrow> bool \<times> ('ctx, 'txs) state" where
  "do_confirm env bt title body s =
     (confirm env bt title body, s\<lparr>out := out s @ [Confirm bt title body]\<rparr>)"

definition confirm_transaction ::
  "('ctx, 'txs) env \<Rightarrow> string \<Rightarrow> string \<Rightarrow> ('ctx, 'txs) state \<Rightarrow> bool \<times> ('ctx, 'txs) state" where
  "confirm_transaction env total_amount fee s =
     (if fee = ''0.0 BTC''
      then do_confirm env ButtonRequest_SignTx ''Transaction''
             (''Do you want to send '' @ total_amount @ '' from your wallet?'') s
      else do_confirm env ButtonRequest_SignTx ''Transaction''
             (''Do you want to send '' @ total_amount
                @ '' from your wallet? This includes a transaction fee of '' @ fee @ ''.'') s)"

definition signing_abort :: "('ctx, 'txs) state \<Rightarrow> ('ctx, 'txs) state" where
  "signing_abort s = (if signing s then (go_home s)\<lparr>signing := False\<rparr> else s)"

text \<open>The pair \<^verbatim>\<open>fsm_sendFailure(..); signing_abort(); return;\<close> of the source.\<close>

definition fail_abort :: "FailureType \<Rightarrow> string \<Rightarrow> ('ctx, 'txs) state \<Rightarrow> ('ctx, 'txs) state" where
  "fail_abort k msg s = signing_abort (fsm_sendFailure k msg s)"

definition TxRequest_zero :: TxRequest where
  "TxRequest_zero =
     \<lparr>has_request_type = False, request_type = RequestType_TXINPUT, has_details = False,
      details = \<lparr>has_request_index = False, request_index = 0, has_tx_hash = False, tx_hash = []\<rparr>,
      has_serialized = False,
      serialized = \<lparr>has_signature_index = False, signature_index = 0, has_signature = False,
                    signature = [], has_serialized_tx = False, serialized_tx = []\<rparr>\<rparr>"

definition MultisigRedeemScriptType_zero :: MultisigRedeemScriptType where
  "MultisigRedeemScriptType_zero = \<lparr>pubkeys = [], signatures = [], has_m = False, m = 0\<rparr>"

definition TxInputType_zero :: TxInputType where
  "TxInputType_zero =
     \<lparr>address_n = [], prev_hash_size = 0, prev_hash_bytes = replicate 32 0, prev_index = 0,
      has_script_sig = False, script_sig = [], has_sequence = False, sequence = 0,
      has_script_type = False, script_type = InputScriptType_SPENDADDRESS,
      has_multisig = False, multisig = MultisigRedeemScriptType_zero\<rparr>"

definition req_index :: "RequestType \<Rightarrow> u32 \<Rightarrow> TxRequest \<Rightarrow> TxRequest" where
  "req_index t i r =
     r\<lparr>has_request_type := True, request_type := t, has_details := True,
       details := (details r)\<lparr>has_request_index := True, request_index := i\<rparr>\<rparr>"

definition req_tx_hash :: "TxInputType \<Rightarrow> TxRequest \<Rightarrow> TxRequest" where
  "req_tx_hash i r =
     r\<lparr>details := (details r)\<lparr>has_tx_hash := True,
                                tx_hash := take (prev_hash_size i) (prev_hash_bytes i)\<rparr>\<rparr>"

definition send_req_1_input :: "('ctx, 'txs) state \<Rightarrow> ('ctx, 'txs) state" where
  "send_req_1_input s =
     msg_write_TxRequest (s\<lparr>signing_stage := STAGE_REQUEST_1_INPUT,
                            resp := req_index RequestType_TXINPUT (idx1 s) (resp s)\<rparr>)"

definition send_req_2_prev_meta :: "('ctx, 'txs) state \<Rightarrow> ('ctx, 'txs) state" where
  "send_req_2_prev_meta s =
     msg_write_TxRequest (s\<lparr>signing_stage := STAGE_REQUEST_2_PREV_META,
        resp := req_tx_hash (input s)
                  ((resp s)\<lparr>has_request_type := True, request_type := RequestType_TXMETA,
                            has_details := True\<rparr>)\<rparr>)"

definition send_req_2_prev_input :: "('ctx, 'txs) state \<Rightarrow> ('ctx, 'txs) state" where
  "send_req_2_prev_input s =
     msg_write_TxRequest (s\<lparr>signing_stage := STAGE_REQUEST_2_PREV_INPUT,
        resp := req_tx_hash (input s) (req_index RequestType_TXINPUT (idx2 s) (resp s))\<rparr>)"

definition send_req_2_prev_output :: "('ctx, 'txs) state \<Rightarrow> ('ctx, 'txs) state" where
  "send_req_2_prev_output s =
     msg_write_TxRequest (s\<lparr>signing_stage := STAGE_REQUEST_2_PREV_OUTPUT,
        resp := req_tx_hash (input s) (req_index RequestType_TXOUTPUT (idx2 s) (resp s))\<rparr>)"

definition send_req_3_output :: "('ctx, 'txs) state \<Rightarrow> ('ctx, 'txs) state" where
  "send_req_3_output s =
     msg_write_TxRequest (s\<lparr>signing_stage := STAGE_REQUEST_3_OUTPUT,
                            resp := req_index RequestType_TXOUTPUT (idx1 s) (resp s)\<rparr>)"

definition send_req_4_input :: "('ctx, 'txs) state \<Rightarrow> ('ctx, 'txs) state" where
  "send_req_4_input s =
     msg_write_TxRequest (s\<lparr>signing_stage := STAGE_REQUEST_4_INPUT,
                            resp := req_index RequestType_TXINPUT (idx2 s) (resp s)\<rparr>)"

definition send_req_4_output :: "('ctx, 'txs) state \<Rightarrow> ('ctx, 'txs) state" where
  "send_req_4_output s =
     msg_write_TxRequest (s\<lparr>signing_stage := STAGE_REQUEST_4_OUTPUT,
                            resp := req_index RequestType_TXOUTPUT (idx2 s) (resp s)\<rparr>)"

definition send_req_5_output :: "('ctx, 'txs) state \<Rightarrow> ('ctx, 'txs) state" where
  "send_req_5_output s =
     msg_write_TxRequest (s\<lparr>signing_stage := STAGE_REQUEST_5_OUTPUT,
                            resp := req_index RequestType_TXOUTPUT (idx1 s) (resp s)\<rparr>)"

definition send_req_finished :: "('ctx, 'txs) state \<Rightarrow> ('ctx, 'txs) state" where
  "send_req_finished s =
     msg_write_TxRequest (s\<lparr>resp := (resp s)\<lparr>has_request_type := True,
                                               request_type := RequestType_TXFINISHED\<rparr>\<rparr>)"

section \<open>Starting a session\<close>

definition signing_version :: u32 where
  "signing_version = 1"

definition signing_lock_time :: u32 where
  "signing_lock_time = 0"

text \<open>The four bytes of a \<^verbatim>\<open>uint32_t\<close> in memory, lowest first (the target is little-endian).\<close>

definition le32 :: "u32 \<Rightarrow> bytes" where
  "le32 w = map (\<lambda>i. ucast (drop_bit (8 * i) w)) [0, 1, 2, 3]"

text \<open>\<^verbatim>\<open>sha256_Init(&tc)\<close> and the four updates that follow it, in both phases.\<close>

definition tc_seed :: "('ctx, 'txs) env \<Rightarrow> u32 \<Rightarrow> u32 \<Rightarrow> 'ctx" where
  "tc_seed env n_in n_out =
     sha256_Update env
       (sha256_Update env
          (sha256_Update env
             (sha256_Update env (sha256_Init env) (le32 n_in))
             (le32 n_out))
          (le32 signing_version))
       (le32 signing_lock_time)"

definition signing_init ::
  "('ctx, 'txs) env \<Rightarrow> u32 \<Rightarrow> u32 \<Rightarrow> CoinType \<Rightarrow> HDNode \<Rightarrow> ('ctx, 'txs) state
     \<Rightarrow> ('ctx, 'txs) state" where
  "signing_init env n_in n_out c r s =
     send_req_1_input
       (animating_progress_handler
          (s\<lparr>inputs_count := n_in, outputs_count := n_out, coin := c, root := r,
             idx1 := 0, to_spend := 0, spending := 0, change_spend := 0,
             input := TxInputType_zero, resp := TxRequest_zero,
             signing := True, multisig_fp_set := False, multisig_fp_mismatch := False,
             to := tx_init env n_in n_out signing_version signing_lock_time False,
             tc := tc_seed env n_in n_out\<rparr>))"

section \<open>Processing an acknowledgement\<close>

text \<open>
  Each case of the \<^verbatim>\<open>switch\<close> in \<^verbatim>\<open>signing_txack\<close> is one definition. An early
  \<^verbatim>\<open>return\<close> after a failure is the \<open>Inl\<close> branch of a sum carrying the final state.
\<close>

definition check_valid_output_address :: "TxOutputType \<Rightarrow> bool" where
  "check_valid_output_address tx_out =
     (case address_type tx_out of
        OutputAddressType_SPEND \<Rightarrow> has_address tx_out
      | OutputAddressType_TRANSFER \<Rightarrow> length (out_address_n tx_out) > 0
      | OutputAddressType_CHANGE \<Rightarrow> length (out_address_n tx_out) > 0)"

definition multisig_fp_step ::
  "('ctx, 'txs) env \<Rightarrow> TxInputType \<Rightarrow> ('ctx, 'txs) state
     \<Rightarrow> ('ctx, 'txs) state + ('ctx, 'txs) state" where
  "multisig_fp_step env i s =
     (if script_type i = InputScriptType_SPENDMULTISIG then
        (if has_multisig i \<and> \<not> multisig_fp_mismatch s then
           (if multisig_fp_set s then
              (case cryptoMultisigFingerprint env (multisig i) of (r, h) \<Rightarrow>
                 if r = 0
                 then Inl (fail_abort Failure_Other ''Error computing multisig fingeprint'' s)
                 else if take 32 (multisig_fp s) \<noteq> take 32 h
                 then Inr (s\<lparr>multisig_fp_mismatch := True\<rparr>)
                 else Inr s)
            else
              (case cryptoMultisigFingerprint env (multisig i) of (r, h) \<Rightarrow>
                 if r = 0
                 then Inl (fail_abort Failure_Other ''Error computing multisig fingeprint''
                             (s\<lparr>multisig_fp := h\<rparr>))
                 else Inr (s\<lparr>multisig_fp := h, multisig_fp_set := True\<rparr>)))
         else Inr s)
      else Inr (s\<lparr>multisig_fp_mismatch := True\<rparr>))"

definition txack_1_input ::
  "('ctx, 'txs) env \<Rightarrow> TransactionType \<Rightarrow> ('ctx, 'txs) state \<Rightarrow> ('ctx, 'txs) state" where
  "txack_1_input env tx s =
     (case multisig_fp_step env (inputs tx) s of
        Inl s' \<Rightarrow> s'
      | Inr s' \<Rightarrow>
          send_req_2_prev_meta
            (s'\<lparr>tc := sha256_Update env (tc s') (TxInputType_bytes env (inputs tx)),
                input := inputs tx\<rparr>))"

definition txack_2_prev_meta ::
  "('ctx, 'txs) env \<Rightarrow> TransactionType \<Rightarrow> ('ctx, 'txs) state \<Rightarrow> ('ctx, 'txs) state" where
  "txack_2_prev_meta env tx s =
     send_req_2_prev_input
       (s\<lparr>tp := tx_init env (inputs_cnt tx) (outputs_cnt tx) (version tx) (lock_time tx) False,
          idx2 := 0\<rparr>)"

definition txack_2_prev_input ::
  "('ctx, 'txs) env \<Rightarrow> TransactionType \<Rightarrow> ('ctx, 'txs) state \<Rightarrow> ('ctx, 'txs) state" where
  "txack_2_prev_input env tx s =
     (case tx_serialize_input_hash env (tp s) (inputs tx) of (r, tp') \<Rightarrow>
        let s1 = s\<lparr>tp := tp'\<rparr> in
        if r = 0 then fail_abort Failure_Other ''Failed to serialize input'' s1
        else if idx2 s1 < inputs_len env (tp s1) - 1
        then send_req_2_prev_input (s1\<lparr>idx2 := idx2 s1 + 1\<rparr>)
        else send_req_2_prev_output (s1\<lparr>idx2 := 0\<rparr>))"

definition txack_2_prev_output ::
  "('ctx, 'txs) env \<Rightarrow> TransactionType \<Rightarrow> ('ctx, 'txs) state \<Rightarrow> ('ctx, 'txs) state" where
  "txack_2_prev_output env tx s =
     (case tx_serialize_output_hash env (tp s) (bin_outputs tx) of (r, tp') \<Rightarrow>
        let s1 = s\<lparr>tp := tp'\<rparr> in
        if r = 0 then fail_abort Failure_Other ''Failed to serialize output'' s1
        else
          let s2 = (if idx2 s1 = prev_index (input s1)
                    then s1\<lparr>to_spend := to_spend s1 + bin_amount (bin_outputs tx)\<rparr>
                    else s1)
          in
          if idx2 s2 < outputs_len env (tp s2) - 1
          then send_req_2_prev_output (s2\<lparr>idx2 := idx2 s2 + 1\<rparr>)
          else
            (case tx_hash_final env (tp s2) True of (h, tp'') \<Rightarrow>
               let s3 = s2\<lparr>hash := h, tp := tp''\<rparr> in
               if take 32 (hash s3) \<noteq> take 32 (prev_hash_bytes (input s3))
               then fail_abort Failure_Other ''Encountered invalid prevhash'' s3
               else if idx1 s3 < inputs_count s3 - 1
               then send_req_1_input (s3\<lparr>idx1 := idx1 s3 + 1\<rparr>)
               else send_req_3_output (s3\<lparr>idx1 := 0\<rparr>)))"

text \<open>Lines 447 to 479: the classification of the output, or the state of the early return.\<close>

definition output_is_change ::
  "('ctx, 'txs) env \<Rightarrow> TxOutputType \<Rightarrow> ('ctx, 'txs) state \<Rightarrow> ('ctx, 'txs) state + bool" where
  "output_is_change env ou s =
     (if out_script_type ou = OutputScriptType_PAYTOMULTISIG \<and> out_has_multisig ou
         \<and> multisig_fp_set s \<and> \<not> multisig_fp_mismatch s
      then
        (case cryptoMultisigFingerprint env (out_multisig ou) of (r, h) \<Rightarrow>
           if r = 0
           then Inl (fail_abort Failure_Other ''Error computing multisig fingeprint'' s)
           else Inr (take 32 (multisig_fp s) = take 32 h))
      else if has_address_type ou then
        (if check_valid_output_address ou = False
         then Inl (fail_abort Failure_Other ''Invalid output address type'' s)
         else Inr (out_script_type ou = OutputScriptType_PAYTOADDRESS
                   \<and> length (out_address_n ou) > 0
                   \<and> address_type ou = OutputAddressType_CHANGE))
      else Inr (out_script_type ou = OutputScriptType_PAYTOADDRESS
                \<and> length (out_address_n ou) > 0))"

text \<open>Lines 510 to 547: the end of the first phase.\<close>

definition txack_3_finish :: "('ctx, 'txs) env \<Rightarrow> ('ctx, 'txs) state \<Rightarrow> ('ctx, 'txs) state" where
  "txack_3_finish env s =
     (case sha256_Final env (tc s) of (h, c') \<Rightarrow>
        let s1 = s\<lparr>hash_check := h, tc := c'\<rparr> in
        if spending s1 > to_spend s1
        then go_home (fsm_sendFailure Failure_NotEnoughFunds ''Not enough funds'' s1)
        else
          let fee = to_spend s1 - spending s1;
              tx_est_size = transactionEstimateSizeKb env (inputs_count s1) (outputs_count s1);
              fee_str = coin_amnt_to_str env (coin s1) fee
          in
          (case (if fee > ucast tx_est_size * maxfee_kb (coin s1) then
                   (case do_confirm env ButtonRequest_FeeOverThreshold ''Confirm Fee'' fee_str s1
                    of (ok, s2) \<Rightarrow>
                      if \<not> ok
                      then Inl (go_home (fsm_sendFailure Failure_ActionCancelled
                                  ''Fee over threshold. Signing cancelled.'' s2))
                      else Inr (animating_progress_handler s2))
                 else Inr s1) of
             Inl s' \<Rightarrow> s'
           | Inr s3 \<Rightarrow>
               let total_amount_str =
                     coin_amnt_to_str env (coin s3) (to_spend s3 - change_spend s3)
               in
               (case confirm_transaction env total_amount_str fee_str s3 of (ok, s4) \<Rightarrow>
                  if \<not> ok
                  then fail_abort Failure_ActionCancelled ''Signing cancelled by user'' s4
                  else send_req_4_input
                         ((animating_progress_handler s4)\<lparr>idx1 := 0, idx2 := 0\<rparr>))))"

definition txack_3_output ::
  "('ctx, 'txs) env \<Rightarrow> TransactionType \<Rightarrow> ('ctx, 'txs) state \<Rightarrow> ('ctx, 'txs) state" where
  "txack_3_output env tx s =
     (case output_is_change env (outputs tx) s of
        Inl s' \<Rightarrow> s'
      | Inr is_change \<Rightarrow>
          (case (if is_change then
                   (if change_spend s = 0
                    then Inr (s\<lparr>change_spend := amount (outputs tx)\<rparr>)
                    else Inl (fail_abort Failure_Other ''Only one change output allowed'' s))
                 else Inr s) of
             Inl s' \<Rightarrow> s'
           | Inr s1 \<Rightarrow>
               let s2 = s1\<lparr>spending := spending s1 + amount (outputs tx)\<rparr> in
               (case compile_output env (coin s2) (root s2) (outputs tx) (\<not> is_change)
                of (co, bo) \<Rightarrow>
                  let s3 = s2\<lparr>bin_output := bo\<rparr>;
                      s4 = (if \<not> is_change then animating_progress_handler s3 else s3)
                  in
                  if co < 0 then fail_abort Failure_Other ''Signing cancelled by user'' s4
                  else if co = 0 then fail_abort Failure_Other ''Failed to compile output'' s4
                  else
                    let s5 = s4\<lparr>tc := sha256_Update env (tc s4)
                                          (TxOutputBinType_bytes env bo)\<rparr>
                    in
                    if idx1 s5 < outputs_count s5 - 1
                    then send_req_3_output (s5\<lparr>idx1 := idx1 s5 + 1\<rparr>)
                    else txack_3_finish env s5)))"

text \<open>
  Lines 562 to 590: the input at position \<^verbatim>\<open>idx1\<close> gets its key and its script, every other
  one an empty script. The result is the input as it will be serialized.
\<close>

definition prepare_input ::
  "('ctx, 'txs) env \<Rightarrow> TxInputType \<Rightarrow> ('ctx, 'txs) state
     \<Rightarrow> ('ctx, 'txs) state + TxInputType \<times> ('ctx, 'txs) state" where
  "prepare_input env i s =
     (if idx2 s = idx1 s then
        (case hdnode_private_ckd_cached env (root s) (address_n i) of (r, n) \<Rightarrow>
           let s1 = s\<lparr>input := i, node := n\<rparr> in
           if r = 0 then Inl (fail_abort Failure_Other ''Failed to derive private key'' s1)
           else
             (case (if script_type i = InputScriptType_SPENDMULTISIG then
                      (if \<not> has_multisig i
                       then Inl (fail_abort Failure_Other ''Multisig info not provided'' s1)
                       else Inr (i\<lparr>script_sig := compile_script_multisig env (multisig i)\<rparr>, s1))
                    else
                      (let pkh = ecdsa_get_pubkeyhash env (public_key (node s1));
                           s2 = s1\<lparr>hash := pkh @ drop (length pkh) (hash s1)\<rparr>
                       in Inr (i\<lparr>script_sig :=
                                   compile_script_sig env (coin_address_type (coin s2)) (hash s2)\<rparr>,
                               s2))) of
                Inl s' \<Rightarrow> Inl s'
              | Inr (i', s3) \<Rightarrow>
                  if length (script_sig i') = 0
                  then Inl (fail_abort Failure_Other ''Failed to compile input'' s3)
                  else Inr (i', s3\<lparr>privkey := take 32 (private_key (node s3)),
                                    pubkey := take 33 (public_key (node s3))\<rparr>)))
      else Inr (i\<lparr>script_sig := []\<rparr>, s))"

definition txack_4_input ::
  "('ctx, 'txs) env \<Rightarrow> TransactionType \<Rightarrow> ('ctx, 'txs) state \<Rightarrow> ('ctx, 'txs) state" where
  "txack_4_input env tx s =
     (let s1 = (if idx2 s = 0
                then s\<lparr>ti := tx_init env (inputs_count s) (outputs_count s)
                                 signing_version signing_lock_time True,
                       tc := tc_seed env (inputs_count s) (outputs_count s),
                       privkey := replicate 32 0,
                       pubkey := replicate 33 0\<rparr>
                else s);
          s2 = s1\<lparr>tc := sha256_Update env (tc s1) (TxInputType_bytes env (inputs tx))\<rparr>
      in
      case prepare_input env (inputs tx) s2 of
        Inl s' \<Rightarrow> s'
      | Inr (i', s3) \<Rightarrow>
          (case tx_serialize_input_hash env (ti s3) i' of (r, ti') \<Rightarrow>
             let s4 = s3\<lparr>ti := ti'\<rparr> in
             if r = 0 then fail_abort Failure_Other ''Failed to serialize input'' s4
             else if idx2 s4 < inputs_count s4 - 1
             then send_req_4_input (s4\<lparr>idx2 := idx2 s4 + 1\<rparr>)
             else send_req_4_output (s4\<lparr>idx2 := 0\<rparr>)))"

text \<open>
  Lines 639 to 662: the signature goes into the script of the held input. The index that
  \<^verbatim>\<open>cryptoMultisigPubkeyIndex\<close> returns is below the number of public keys, so the write
  stays inside the array \<^verbatim>\<open>signatures\<close>; the list update is this write.
\<close>

definition fill_script_sig ::
  "('ctx, 'txs) env \<Rightarrow> ('ctx, 'txs) state \<Rightarrow> ('ctx, 'txs) state + ('ctx, 'txs) state" where
  "fill_script_sig env s =
     (if script_type (input s) = InputScriptType_SPENDMULTISIG then
        (if \<not> has_multisig (input s)
         then Inl (fail_abort Failure_Other ''Multisig info not provided'' s)
         else
           let pubkey_idx = cryptoMultisigPubkeyIndex env (multisig (input s)) (pubkey s) in
           if pubkey_idx < 0
           then Inl (fail_abort Failure_Other ''Pubkey not found in multisig script'' s)
           else
             let ms = (multisig (input s))\<lparr>signatures :=
                         (signatures (multisig (input s)))
                           [nat pubkey_idx := signature (serialized (resp s))]\<rparr>;
                 s1 = s\<lparr>input := (input s)\<lparr>multisig := ms\<rparr>\<rparr>;
                 s2 = s1\<lparr>input := (input s1)\<lparr>script_sig :=
                                        serialize_script_multisig env (multisig (input s1))\<rparr>\<rparr>
             in
             if length (script_sig (input s2)) = 0
             then Inl (fail_abort Failure_Other ''Failed to serialize multisig script'' s2)
             else Inr s2)
      else Inr (s\<lparr>input := (input s)\<lparr>script_sig :=
                   serialize_script_sig env (signature (serialized (resp s))) (pubkey s)\<rparr>\<rparr>))"

text \<open>Lines 625 to 675: the end of one walk of the second phase.\<close>

definition txack_4_sign :: "('ctx, 'txs) env \<Rightarrow> ('ctx, 'txs) state \<Rightarrow> ('ctx, 'txs) state" where
  "txack_4_sign env s =
     (case sha256_Final env (tc s) of (h, c') \<Rightarrow>
        let s1 = s\<lparr>hash := h, tc := c'\<rparr> in
        if take 32 (hash s1) \<noteq> take 32 (hash_check s1)
        then fail_abort Failure_Other ''Transaction has changed during signing'' s1
        else
          (case tx_hash_final env (ti s1) False of (d, ti') \<Rightarrow>
             let s2 = s1\<lparr>hash := d, ti := ti'\<rparr>;
                 s3 = s2\<lparr>resp := (resp s2)\<lparr>has_serialized := True,
                         serialized := (serialized (resp s2))\<lparr>has_signature_index := True,
                            signature_index := idx1 s2, has_signature := True,
                            has_serialized_tx := True\<rparr>\<rparr>\<rparr>;
                 s4 = s3\<lparr>sig := ecdsa_sign_digest env (privkey s3) (hash s3)\<rparr>;
                 s5 = s4\<lparr>resp := (resp s4)\<lparr>serialized := (serialized (resp s4))\<lparr>signature :=
                            ecdsa_sig_to_der env (sig s4)\<rparr>\<rparr>\<rparr>
             in
             (case fill_script_sig env s5 of
                Inl s' \<Rightarrow> s'
              | Inr s6 \<Rightarrow>
                  (case tx_serialize_input env (to s6) (input s6) of (b, to') \<Rightarrow>
                     let s7 = s6\<lparr>to := to',
                                 resp := (resp s6)\<lparr>serialized :=
                                           (serialized (resp s6))\<lparr>serialized_tx := b\<rparr>\<rparr>\<rparr>;
                         s8 = (animating_progress_handler s7)\<lparr>update_ctr := 0\<rparr>
                     in
                     if idx1 s8 < inputs_count s8 - 1
                     then send_req_4_input (s8\<lparr>idx1 := idx1 s8 + 1, idx2 := 0\<rparr>)
                     else send_req_5_output (s8\<lparr>idx1 := 0\<rparr>)))))"

definition txack_4_output ::
  "('ctx, 'txs) env \<Rightarrow> TransactionType \<Rightarrow> ('ctx, 'txs) state \<Rightarrow> ('ctx, 'txs) state" where
  "txack_4_output env tx s =
     (case compile_output env (coin s) (root s) (outputs tx) False of (co, bo) \<Rightarrow>
        let s1 = s\<lparr>bin_output := bo\<rparr> in
        if co < 0 then fail_abort Failure_Other ''Signing cancelled by user'' s1
        else if co = 0 then fail_abort Failure_Other ''Failed to compile output'' s1
        else
          let s2 = s1\<lparr>tc := sha256_Update env (tc s1) (TxOutputBinType_bytes env bo)\<rparr> in
          (case tx_serialize_output_hash env (ti s2) (bin_output s2) of (r, ti') \<Rightarrow>
             let s3 = s2\<lparr>ti := ti'\<rparr> in
             if r = 0 then fail_abort Failure_Other ''Failed to serialize output'' s3
             else if idx2 s3 < outputs_count s3 - 1
             then send_req_4_output (s3\<lparr>idx2 := idx2 s3 + 1\<rparr>)
             else txack_4_sign env s3))"

definition txack_5_output ::
  "('ctx, 'txs) env \<Rightarrow> TransactionType \<Rightarrow> ('ctx, 'txs) state \<Rightarrow> ('ctx, 'txs) state" where
  "txack_5_output env tx s =
     (case compile_output env (coin s) (root s) (outputs tx) False of (co, bo) \<Rightarrow>
        let s1 = s\<lparr>bin_output := bo\<rparr> in
        if co \<le> 0 then fail_abort Failure_Other ''Failed to compile output'' s1
        else
          (case tx_serialize_output env (to s1) (bin_output s1) of (b, to') \<Rightarrow>
             let s2 = s1\<lparr>to := to',
                         resp := (resp s1)\<lparr>has_serialized := True,
                                   serialized := (serialized (resp s1))\<lparr>has_serialized_tx := True,
                                                    serialized_tx := b\<rparr>\<rparr>\<rparr>
             in
             if idx1 s2 < outputs_count s2 - 1
             then send_req_5_output (s2\<lparr>idx1 := idx1 s2 + 1\<rparr>)
             else signing_abort (send_req_finished s2)))"

text \<open>
  The whole of \<^verbatim>\<open>signing_txack\<close>; \<open>progress_tick\<close> is the counter \<^verbatim>\<open>update_ctr\<close> of lines
  351 to 355. Every case of the switch returns, and the stage is one of the eight values,
  so the \<^verbatim>\<open>"Signing error"\<close> after the switch is never reached.
\<close>

definition progress_tick :: "('ctx, 'txs) state \<Rightarrow> ('ctx, 'txs) state" where
  "progress_tick s =
     (if update_ctr s = 20
      then (animating_progress_handler s)\<lparr>update_ctr := 0\<rparr>
      else s\<lparr>update_ctr := update_ctr s + 1\<rparr>)"

definition signing_txack ::
  "('ctx, 'txs) env \<Rightarrow> TransactionType \<Rightarrow> ('ctx, 'txs) state \<Rightarrow> ('ctx, 'txs) state" where
  "signing_txack env tx s =
     (if \<not> signing s
      then go_home (fsm_sendFailure Failure_UnexpectedMessage ''Not in Signing mode'' s)
      else
        let s1 = progress_tick s;
            s2 = s1\<lparr>resp := TxRequest_zero\<rparr>
        in
        case signing_stage s2 of
          STAGE_REQUEST_1_INPUT \<Rightarrow> txack_1_input env tx s2
        | STAGE_REQUEST_2_PREV_META \<Rightarrow> txack_2_prev_meta env tx s2
        | STAGE_REQUEST_2_PREV_INPUT \<Rightarrow> txack_2_prev_input env tx s2
        | STAGE_REQUEST_2_PREV_OUTPUT \<Rightarrow> txack_2_prev_output env tx s2
        | STAGE_REQUEST_3_OUTPUT \<Rightarrow> txack_3_output env tx s2
        | STAGE_REQUEST_4_INPUT \<Rightarrow> txack_4_input env tx s2
        | STAGE_REQUEST_4_OUTPUT \<Rightarrow> txack_4_output env tx s2
        | STAGE_REQUEST_5_OUTPUT \<Rightarrow> txack_5_output env tx s2)"

text \<open>A session after its start: the acknowledgements of the host, one after the other.\<close>

fun run :: "('ctx, 'txs) env \<Rightarrow> TransactionType list \<Rightarrow> ('ctx, 'txs) state \<Rightarrow> ('ctx, 'txs) state" where
  "run env [] s = s"
| "run env (tx # txs) s = run env txs (signing_txack env tx s)"

section \<open>Observing a run\<close>

text \<open>The messages and prompts among a list of effects, and the effects one step adds.\<close>

fun failures :: "event list \<Rightarrow> (FailureType \<times> string) list" where
  "failures [] = []"
| "failures (SendFailure k msg # es) = (k, msg) # failures es"
| "failures (e # es) = failures es"

fun requests :: "event list \<Rightarrow> TxRequest list" where
  "requests [] = []"
| "requests (MsgWrite r # es) = r # requests es"
| "requests (e # es) = requests es"

fun prompts :: "ButtonRequestType \<Rightarrow> event list \<Rightarrow> (string \<times> string) list" where
  "prompts bt [] = []"
| "prompts bt (Confirm b title body # es) =
     (if b = bt then (title, body) # prompts bt es else prompts bt es)"
| "prompts bt (e # es) = prompts bt es"

definition new_events :: "('ctx, 'txs) state \<Rightarrow> ('ctx, 'txs) state \<Rightarrow> event list" where
  "new_events s s' = drop (length (out s)) (out s')"

section \<open>A small instance for concrete runs\<close>

text \<open>
  Stand-ins for the libraries, small enough to evaluate: a hash context is the bytes fed
  to it, a digest is the length and the sum of these bytes, a codec state is the two
  counts and the bytes serialized so far. The user accepts every screen; an output whose
  address is \<open>''refused''\<close> is the one the user rejects when it is displayed.
\<close>

definition sample_digest :: "bytes \<Rightarrow> bytes" where
  "sample_digest bs = [of_nat (length bs), foldr (+) bs 0]"

definition sample_bin_zero :: TxOutputBinType where
  "sample_bin_zero = \<lparr>bin_amount = 0, script_pubkey = []\<rparr>"

definition sample_compile_output ::
  "CoinType \<Rightarrow> HDNode \<Rightarrow> TxOutputType \<Rightarrow> bool \<Rightarrow> int \<times> TxOutputBinType" where
  "sample_compile_output c r ou needs_confirm =
     (if needs_confirm \<and> address ou = ''refused'' then (- 1, sample_bin_zero)
      else if out_script_type ou = OutputScriptType_PAYTOMULTISIG then
        (if out_has_multisig ou
         then (1, \<lparr>bin_amount = amount ou,
                   script_pubkey = 174 # concat (pubkeys (out_multisig ou))\<rparr>)
         else (0, sample_bin_zero))
      else if has_address ou \<or> out_address_n ou \<noteq> [] then
        (1, \<lparr>bin_amount = amount ou,
             script_pubkey = of_nat (length (address ou)) # map ucast (out_address_n ou)\<rparr>)
      else (0, sample_bin_zero))"

definition sample_env :: "(bytes, u32 \<times> u32 \<times> bytes) env" where
  "sample_env =
     \<lparr>sha256_Init = [],
      sha256_Update = (\<lambda>c b. c @ b),
      sha256_Final = (\<lambda>c. (sample_digest c, [])),
      tx_init = (\<lambda>n_in n_out v l sgn. (n_in, n_out, le32 v @ le32 l)),
      inputs_len = (\<lambda>t. fst t),
      outputs_len = (\<lambda>t. fst (snd t)),
      tx_serialize_input_hash =
        (\<lambda>t i. (1, fst t, fst (snd t),
                 snd (snd t) @ [ucast (prev_index i), ucast (sequence i)] @ script_sig i)),
      tx_serialize_output_hash =
        (\<lambda>t b. (1, fst t, fst (snd t), snd (snd t) @ [ucast (bin_amount b)] @ script_pubkey b)),
      tx_hash_final = (\<lambda>t rev. (sample_digest (snd (snd t)), t)),
      tx_serialize_input = (\<lambda>t i. ([ucast (prev_index i), ucast (sequence i)] @ script_sig i, t)),
      tx_serialize_output = (\<lambda>t b. ([ucast (bin_amount b)] @ script_pubkey b, t)),
      cryptoMultisigFingerprint = (\<lambda>ms. (1, concat (pubkeys ms))),
      cryptoMultisigPubkeyIndex = (\<lambda>ms pk. 0),
      compile_output = sample_compile_output,
      compile_script_multisig = (\<lambda>ms. [1]),
      compile_script_sig = (\<lambda>t h. ucast t # take 1 h),
      serialize_script_multisig = (\<lambda>ms. concat (signatures ms)),
      serialize_script_sig = (\<lambda>sg pk. sg @ take 1 pk),
      hdnode_private_ckd_cached = (\<lambda>n path. (1, n\<lparr>depth := depth n + of_nat (length path)\<rparr>)),
      ecdsa_get_pubkeyhash = (\<lambda>pk. take 20 pk),
      ecdsa_sign_digest = (\<lambda>k d. take 1 k @ take 1 d),
      ecdsa_sig_to_der = (\<lambda>sg. sg),
      transactionEstimateSizeKb = (\<lambda>n_in n_out. (148 * n_in + 34 * n_out + 10 + 999) div 1000),
      coin_amnt_to_str = (\<lambda>c v. if v = 0 then ''0.0 BTC'' else ''some BTC''),
      confirm = (\<lambda>bt title body. True),
      TxInputType_bytes =
        (\<lambda>i. [ucast (prev_index i), of_nat (length (address_n i)),
               (if script_type i = InputScriptType_SPENDMULTISIG then 1 else 0),
               (if has_script_sig i then 1 else 0), (if has_sequence i then 1 else 0),
               (if has_script_type i then 1 else 0), (if has_multisig i then 1 else 0)]
              @ map ucast (address_n i) @ prev_hash_bytes i @ script_sig i),
      TxOutputBinType_bytes = (\<lambda>b. ucast (bin_amount b) # script_pubkey b)\<rparr>"

definition sample_coin :: CoinType where
  "sample_coin = \<lparr>coin_name = ''Bitcoin'', maxfee_kb = 100000, coin_address_type = 0\<rparr>"

definition sample_root :: HDNode where
  "sample_root =
     \<lparr>depth = 0, fingerprint = 0, child_num = 0, chain_code = replicate 32 0,
      private_key = replicate 32 5, public_key = replicate 33 2\<rparr>"

text \<open>The module before any session: every static variable is zero.\<close>

definition state_zero :: "(bytes, u32 \<times> u32 \<times> bytes) state" where
  "state_zero =
     \<lparr>inputs_count = 0, outputs_count = 0, coin = sample_coin, root = sample_root,
      node = sample_root, signing = False, idx1 = 0, idx2 = 0, resp = TxRequest_zero,
      input = TxInputType_zero, bin_output = sample_bin_zero,
      to = (0, 0, []), tp = (0, 0, []), ti = (0, 0, []), tc = [],
      hash = replicate 32 0, hash_check = replicate 32 0, privkey = replicate 32 0,
      pubkey = replicate 33 0, sig = replicate 64 0,
      to_spend = 0, spending = 0, change_spend = 0,
      multisig_fp_set = False, multisig_fp_mismatch = False, multisig_fp = replicate 32 0,
      signing_stage = STAGE_REQUEST_1_INPUT, update_ctr = 0, out = []\<rparr>"

definition sample_output :: "u64 \<Rightarrow> TxOutputType" where
  "sample_output v =
     \<lparr>has_address = True, address = ''1abc'', out_address_n = [], amount = v,
      out_script_type = OutputScriptType_PAYTOADDRESS, out_has_multisig = False,
      out_multisig = MultisigRedeemScriptType_zero, has_address_type = False,
      address_type = OutputAddressType_SPEND\<rparr>"

definition tx_zero :: TransactionType where
  "tx_zero =
     \<lparr>version = 0, inputs = TxInputType_zero, bin_outputs = sample_bin_zero,
      outputs = sample_output 0, lock_time = 0, inputs_cnt = 0, outputs_cnt = 0\<rparr>"

text \<open>
  The previous transaction of the sample input: version 1, one input, one output of 100
  with script \<open>[9]\<close>. Its digest under \<open>sample_digest\<close> is \<open>[12, 110]\<close>.
\<close>

definition sample_input :: TxInputType where
  "sample_input =
     TxInputType_zero\<lparr>address_n := [0], prev_hash_size := 2, prev_hash_bytes := [12, 110]\<rparr>"

definition ack_input :: "TxInputType \<Rightarrow> TransactionType" where
  "ack_input i = tx_zero\<lparr>inputs := i\<rparr>"

definition ack_meta :: TransactionType where
  "ack_meta = tx_zero\<lparr>version := 1, inputs_cnt := 1, outputs_cnt := 1\<rparr>"

definition ack_prev_output :: TransactionType where
  "ack_prev_output = tx_zero\<lparr>bin_outputs := \<lparr>bin_amount = 100, script_pubkey = [9]\<rparr>\<rparr>"

definition ack_output :: "TxOutputType \<Rightarrow> TransactionType" where
  "ack_output ou = tx_zero\<lparr>outputs := ou\<rparr>"

text \<open>A session with one input and \<open>n_out\<close> outputs, after the input and its previous
  transaction have been received: the engine waits for output 0.\<close>

definition sample_funded :: "u32 \<Rightarrow> TxInputType \<Rightarrow> (bytes, u32 \<times> u32 \<times> bytes) state" where
  "sample_funded n_out i =
     run sample_env [ack_input i, ack_meta, ack_input TxInputType_zero, ack_prev_output]
       (signing_init sample_env 1 n_out sample_coin sample_root state_zero)"

text \<open>A multisig input of the group with keys \<open>[1]\<close> and \<open>[2]\<close>, and an output that pays
  another group and is marked as a spend without an address.\<close>

definition sample_multisig_input :: TxInputType where
  "sample_multisig_input =
     sample_input\<lparr>script_type := InputScriptType_SPENDMULTISIG, has_multisig := True,
                  multisig := \<lparr>pubkeys = [[1], [2]], signatures = [[], []], has_m = True, m = 2\<rparr>\<rparr>"

definition sample_multisig_output :: TxOutputType where
  "sample_multisig_output =
     \<lparr>has_address = False, address = [], out_address_n = [], amount = 90,
      out_script_type = OutputScriptType_PAYTOMULTISIG, out_has_multisig = True,
      out_multisig = \<lparr>pubkeys = [[3], [4]], signatures = [[], []], has_m = True, m = 2\<rparr>,
      has_address_type = True, address_type = OutputAddressType_SPEND\<rparr>"

definition sample_invalid_spend :: TxOutputType where
  "sample_invalid_spend = (sample_output 90)\<lparr>has_address := False, has_address_type := True\<rparr>"

text \<open>A coin whose fee threshold is low, and the same session as \<open>sample_funded 1\<close> with it.\<close>

definition sample_cheap_coin :: CoinType where
  "sample_cheap_coin = sample_coin\<lparr>maxfee_kb := 5\<rparr>"

definition sample_funded_cheap :: "(bytes, u32 \<times> u32 \<times> bytes) state" where
  "sample_funded_cheap =
     run sample_env [ack_input sample_input, ack_meta, ack_input TxInputType_zero, ack_prev_output]
       (signing_init sample_env 1 1 sample_cheap_coin sample_root state_zero)"

section \<open>Notions used to state the properties\<close>

text \<open>The state in which a case of the switch starts: lines 351 to 358.\<close>

definition tick :: "('ctx, 'txs) state \<Rightarrow> ('ctx, 'txs) state" where
  "tick s = (progress_tick s)\<lparr>resp := TxRequest_zero\<rparr>"

text \<open>
  The state in which the fee check starts (line 510) when the last output of the first
  phase, classified \<open>ch\<close> and compiled to \<open>bo\<close>, has been accepted in state \<open>s0\<close>.
\<close>

definition fee_check_state ::
  "('ctx, 'txs) env \<Rightarrow> TransactionType \<Rightarrow> bool \<Rightarrow> TxOutputBinType \<Rightarrow> ('ctx, 'txs) state
     \<Rightarrow> ('ctx, 'txs) state" where
  "fee_check_state env tx ch bo s0 =
     (let s1 = (if ch then s0\<lparr>change_spend := amount (outputs tx)\<rparr> else s0);
          s2 = s1\<lparr>spending := spending s1 + amount (outputs tx)\<rparr>;
          s3 = s2\<lparr>bin_output := bo\<rparr>;
          s4 = (if \<not> ch then animating_progress_handler s3 else s3)
      in s4\<lparr>tc := sha256_Update env (tc s4) (TxOutputBinType_bytes env bo)\<rparr>)"

text \<open>The text of the final confirmation screen, and the threshold the fee is compared with.\<close>

definition transaction_body :: "string \<Rightarrow> string \<Rightarrow> string" where
  "transaction_body total_amount fee =
     (if fee = ''0.0 BTC''
      then ''Do you want to send '' @ total_amount @ '' from your wallet?''
      else ''Do you want to send '' @ total_amount
             @ '' from your wallet? This includes a transaction fee of '' @ fee @ ''.'')"

definition fee_threshold :: "('ctx, 'txs) env \<Rightarrow> ('ctx, 'txs) state \<Rightarrow> u64" where
  "fee_threshold env s =
     ucast (transactionEstimateSizeKb env (inputs_count s) (outputs_count s)) * maxfee_kb (coin s)"

text \<open>The effects of lines 533 to 547 and of lines 510 to 547, as lists.\<close>

definition final_events :: "('ctx, 'txs) env \<Rightarrow> ('ctx, 'txs) state \<Rightarrow> event list" where
  "final_events env s =
     (let fee_str = coin_amnt_to_str env (coin s) (to_spend s - spending s);
          body = transaction_body (coin_amnt_to_str env (coin s) (to_spend s - change_spend s)) fee_str
      in Confirm ButtonRequest_SignTx ''Transaction'' body
         # (if confirm env ButtonRequest_SignTx ''Transaction'' body
            then [Progress, MsgWrite (req_index RequestType_TXINPUT 0 (resp s))]
            else [SendFailure Failure_ActionCancelled ''Signing cancelled by user'', GoHome]))"

definition finish_events :: "('ctx, 'txs) env \<Rightarrow> ('ctx, 'txs) state \<Rightarrow> event list" where
  "finish_events env s =
     (let fee_str = coin_amnt_to_str env (coin s) (to_spend s - spending s) in
      if spending s > to_spend s
      then [SendFailure Failure_NotEnoughFunds ''Not enough funds'', GoHome]
      else if to_spend s - spending s > fee_threshold env s
      then Confirm ButtonRequest_FeeOverThreshold ''Confirm Fee'' fee_str
           # (if confirm env ButtonRequest_FeeOverThreshold ''Confirm Fee'' fee_str
              then Progress # final_events env s
              else [SendFailure Failure_ActionCancelled ''Fee over threshold. Signing cancelled.'',
                    GoHome])
      else final_events env s)"

text \<open>
  Lines 565 to 585: the key of the input at position \<^verbatim>\<open>idx1\<close> is derived and its script
  compiled, so that lines 586 and 587 copy the key pair.
\<close>

definition key_prepared :: "('ctx, 'txs) env \<Rightarrow> TxInputType \<Rightarrow> ('ctx, 'txs) state \<Rightarrow> bool" where
  "key_prepared env i s =
     (case hdnode_private_ckd_cached env (root s) (address_n i) of (r, n) \<Rightarrow>
        r \<noteq> 0
        \<and> (if script_type i = InputScriptType_SPENDMULTISIG
           then has_multisig i \<and> compile_script_multisig env (multisig i) \<noteq> []
           else compile_script_sig env (coin_address_type (coin s))
                  (ecdsa_get_pubkeyhash env (public_key n)
                   @ drop (length (ecdsa_get_pubkeyhash env (public_key n))) (hash s)) \<noteq> []))"

section \<open>Sample sessions\<close>

text \<open>One input of 100, one output of 90 to an address: the whole session, and its states
  after the final confirmation and after the signature.\<close>

definition sample_session :: "TransactionType list" where
  "sample_session =
     [ack_input sample_input, ack_meta, ack_input TxInputType_zero, ack_prev_output,
      ack_output (sample_output 90),
      ack_input sample_input, ack_output (sample_output 90),
      ack_output (sample_output 90)]"

definition sample_finished :: "(bytes, u32 \<times> u32 \<times> bytes) state" where
  "sample_finished =
     run sample_env sample_session (signing_init sample_env 1 1 sample_coin sample_root state_zero)"

definition sample_confirmed :: "(bytes, u32 \<times> u32 \<times> bytes) state" where
  "sample_confirmed =
     signing_txack sample_env (ack_output (sample_output 90)) (sample_funded 1 sample_input)"

definition sample_signed :: "(bytes, u32 \<times> u32 \<times> bytes) state" where
  "sample_signed =
     run sample_env [ack_input sample_input, ack_output (sample_output 90)] sample_confirmed"

text \<open>An output to the wallet's own path \<open>[i]\<close>, and an output the user rejects.\<close>

definition sample_change :: "u64 \<Rightarrow> u32 \<Rightarrow> TxOutputType" where
  "sample_change v i =
     (sample_output v)\<lparr>has_address := False, address := [], out_address_n := [i]\<rparr>"

definition sample_refused :: TxOutputType where
  "sample_refused = (sample_output 90)\<lparr>address := ''refused''\<rparr>"

text \<open>The session after an output of 150 against inputs of 100.\<close>

definition sample_poor :: "(bytes, u32 \<times> u32 \<times> bytes) state" where
  "sample_poor =
     signing_txack sample_env (ack_output (sample_output 150)) (sample_funded 1 sample_input)"

text \<open>A user who rejects the fee screen, and the session after this rejection.\<close>

definition sample_fee_refusing_env :: "(bytes, u32 \<times> u32 \<times> bytes) env" where
  "sample_fee_refusing_env =
     sample_env\<lparr>confirm := (\<lambda>bt title body. bt \<noteq> ButtonRequest_FeeOverThreshold)\<rparr>"

definition sample_fee_refused :: "(bytes, u32 \<times> u32 \<times> bytes) state" where
  "sample_fee_refused =
     signing_txack sample_fee_refusing_env (ack_output (sample_output 90)) sample_funded_cheap"












text \<open>
  The value of \<^verbatim>\<open>is_change\<close> at line 481, when lines 447 to 479 have not returned: a function
  of the output delivered and of the fingerprint of the session.
\<close>

definition is_change :: "('ctx, 'txs) env \<Rightarrow> TxOutputType \<Rightarrow> ('ctx, 'txs) state \<Rightarrow> bool" where
  "is_change env ou s =
     (if out_script_type ou = OutputScriptType_PAYTOMULTISIG \<and> out_has_multisig ou
         \<and> multisig_fp_set s \<and> \<not> multisig_fp_mismatch s
      then take 32 (multisig_fp s) = take 32 (snd (cryptoMultisigFingerprint env (out_multisig ou)))
      else if has_address_type ou
      then out_script_type ou = OutputScriptType_PAYTOADDRESS \<and> length (out_address_n ou) > 0
           \<and> address_type ou = OutputAddressType_CHANGE
      else out_script_type ou = OutputScriptType_PAYTOADDRESS \<and> length (out_address_n ou) > 0)"

text \<open>
  The bytes of an output delivered by the host once \<^verbatim>\<open>compile_output\<close> has rendered it for
  the coin and the root node of the session; \<open>shown\<close> is the last argument of the call.
\<close>

definition compiled ::
  "('ctx, 'txs) env \<Rightarrow> CoinType \<Rightarrow> HDNode \<Rightarrow> TxOutputType \<Rightarrow> bool \<Rightarrow> bytes" where
  "compiled env c rt ou shown = TxOutputBinType_bytes env (snd (compile_output env c rt ou shown))"



text \<open>
  The checksum over the seed and a list of records; \<open>records\<close> collects, along a run of a
  session with coin \<open>c\<close> and root node \<open>rt\<close>, the records of the current pass as the data
  of the host determine them: each input as received, each output as \<^verbatim>\<open>compile_output\<close>
  renders the output delivered. In the first phase the output is displayed unless it is
  change, in the second phase it is not displayed. A walk of the second phase starts a new
  list.
\<close>

definition checksum_ctx :: "('ctx, 'txs) env \<Rightarrow> u32 \<Rightarrow> u32 \<Rightarrow> bytes list \<Rightarrow> 'ctx" where
  "checksum_ctx env n_in n_out rs = foldl (sha256_Update env) (tc_seed env n_in n_out) rs"


definition records_step ::
  "('ctx, 'txs) env \<Rightarrow> CoinType \<Rightarrow> HDNode \<Rightarrow> TransactionType \<Rightarrow> ('ctx, 'txs) state
     \<Rightarrow> bytes list \<Rightarrow> bytes list" where
  "records_step env c rt tx s rs =
     (case signing_stage s of
        STAGE_REQUEST_1_INPUT \<Rightarrow> rs @ [TxInputType_bytes env (inputs tx)]
      | STAGE_REQUEST_3_OUTPUT \<Rightarrow>
          rs @ [compiled env c rt (outputs tx) (\<not> is_change env (outputs tx) s)]
      | STAGE_REQUEST_4_INPUT \<Rightarrow>
          (if idx2 s = 0 then [] else rs) @ [TxInputType_bytes env (inputs tx)]
      | STAGE_REQUEST_4_OUTPUT \<Rightarrow> rs @ [compiled env c rt (outputs tx) False]
      | _ \<Rightarrow> rs)"

fun records ::
  "('ctx, 'txs) env \<Rightarrow> CoinType \<Rightarrow> HDNode \<Rightarrow> TransactionType list \<Rightarrow> ('ctx, 'txs) state
     \<Rightarrow> bytes list \<Rightarrow> bytes list" where
  "records env c rt [] s rs = rs"
| "records env c rt (tx # txs) s rs =
     records env c rt txs (signing_txack env tx s) (records_step env c rt tx s rs)"







text \<open>
  An output whose amount is \<open>2^64 - 100\<close>, a library that finds no public key in a multisig
  script, and the session with the multisig input after its confirmation and after the
  input of the second phase.
\<close>

definition sample_wrapping :: TxOutputType where
  "sample_wrapping = sample_output 18446744073709551516"

definition sample_keyless_env :: "(bytes, u32 \<times> u32 \<times> bytes) env" where
  "sample_keyless_env = sample_env\<lparr>cryptoMultisigPubkeyIndex := (\<lambda>ms pk. - 1)\<rparr>"

definition sample_multisig_walk :: "(bytes, u32 \<times> u32 \<times> bytes) state" where
  "sample_multisig_walk =
     run sample_keyless_env
       [ack_input sample_multisig_input, ack_meta, ack_input TxInputType_zero, ack_prev_output,
        ack_output (sample_output 90), ack_input sample_multisig_input]
       (signing_init sample_keyless_env 1 1 sample_coin sample_root state_zero)"


section \<open>Properties\<close>

lemmas effect_defs = fsm_sendFailure_def go_home_def animating_progress_handler_def
  msg_write_TxRequest_def do_confirm_def confirm_transaction_def signing_abort_def fail_abort_def

lemmas send_defs = send_req_1_input_def send_req_2_prev_meta_def send_req_2_prev_input_def
  send_req_2_prev_output_def send_req_3_output_def send_req_4_input_def send_req_4_output_def
  send_req_5_output_def send_req_finished_def

lemma failures_append [simp]: "failures (xs @ ys) = failures xs @ failures ys"
  by (induction xs rule: failures.induct) simp_all

lemma requests_append [simp]: "requests (xs @ ys) = requests xs @ requests ys"
  by (induction xs rule: requests.induct) simp_all

lemma prompts_append [simp]: "prompts bt (xs @ ys) = prompts bt xs @ prompts bt ys"
  by (induction bt xs rule: prompts.induct) simp_all

subsection \<open>Starting a session\<close>

text \<open>
  C8 (as the code has it). \<open>signing_init\<close> zeroes \<open>to_spend\<close>, \<open>spending\<close> and
  \<open>change_spend\<close>, seeds the checksum with the four words inputs count, outputs count,
  version 1 and lock time 0, marks the session active and writes one request, of type
  TXINPUT with index 0. It does so from every state: it does not look at \<open>signing\<close> and
  sends no failure.
\<close>

theorem signing_init_session:
  "to_spend (signing_init env n_in n_out c r s) = 0
   \<and> spending (signing_init env n_in n_out c r s) = 0
   \<and> change_spend (signing_init env n_in n_out c r s) = 0
   \<and> tc (signing_init env n_in n_out c r s)
       = foldl (sha256_Update env) (sha256_Init env) [le32 n_in, le32 n_out, le32 1, le32 0]
   \<and> inputs_count (signing_init env n_in n_out c r s) = n_in
   \<and> outputs_count (signing_init env n_in n_out c r s) = n_out
   \<and> signing (signing_init env n_in n_out c r s)
   \<and> signing_stage (signing_init env n_in n_out c r s) = STAGE_REQUEST_1_INPUT
   \<and> new_events s (signing_init env n_in n_out c r s)
       = [Progress, MsgWrite (req_index RequestType_TXINPUT 0 TxRequest_zero)]"
  by (simp add: signing_init_def send_req_1_input_def msg_write_TxRequest_def new_events_def
      animating_progress_handler_def tc_seed_def signing_version_def signing_lock_time_def)

text \<open>
  C8 as stated fails: started while a session with two outputs is active and waits for
  its first output, \<open>signing_init\<close> sends no failure and asks for input 0 of a new session.
\<close>

theorem signing_init_active_counterexample:
  "signing (sample_funded 2 sample_input)
   \<and> failures (new_events (sample_funded 2 sample_input)
        (signing_init sample_env 1 1 sample_coin sample_root (sample_funded 2 sample_input))) = []
   \<and> requests (new_events (sample_funded 2 sample_input)
        (signing_init sample_env 1 1 sample_coin sample_root (sample_funded 2 sample_input)))
       = [req_index RequestType_TXINPUT 0 TxRequest_zero]
   \<and> signing (signing_init sample_env 1 1 sample_coin sample_root (sample_funded 2 sample_input))"
  by code_simp

subsection \<open>Outputs with an explicit address type\<close>

text \<open>
  C10 (as the code has it). In stage REQ_3_OUTPUT, an output that does not enter the
  multisig fingerprint comparison (it is not a PAYTOMULTISIG output with a multisig record,
  or the session has no fingerprint, or the fingerprints of the inputs disagree) and that
  carries an address type failing validity (SPEND without an address, TRANSFER or CHANGE
  with an empty path) aborts the session: one failure of kind Other with the message
  "Invalid output address type", no request, the screen back home, the session inactive.
\<close>

theorem invalid_output_address_type:
  assumes "signing s" and "signing_stage s = STAGE_REQUEST_3_OUTPUT"
    and "\<not> (out_script_type (outputs tx) = OutputScriptType_PAYTOMULTISIG
             \<and> out_has_multisig (outputs tx) \<and> multisig_fp_set s \<and> \<not> multisig_fp_mismatch s)"
    and "has_address_type (outputs tx)"
    and "(address_type (outputs tx) = OutputAddressType_SPEND \<and> \<not> has_address (outputs tx))
         \<or> ((address_type (outputs tx) = OutputAddressType_TRANSFER
              \<or> address_type (outputs tx) = OutputAddressType_CHANGE)
             \<and> out_address_n (outputs tx) = [])"
  shows "failures (new_events s (signing_txack env tx s))
           = [(Failure_Other, ''Invalid output address type'')]
         \<and> requests (new_events s (signing_txack env tx s)) = []
         \<and> GoHome \<in> set (new_events s (signing_txack env tx s))
         \<and> \<not> signing (signing_txack env tx s)"
  using assms
  by (auto simp: signing_txack_def progress_tick_def txack_3_output_def output_is_change_def
      check_valid_output_address_def new_events_def effect_defs)

theorem invalid_output_address_type_witness:
  "signing (sample_funded 1 sample_input)
   \<and> signing_stage (sample_funded 1 sample_input) = STAGE_REQUEST_3_OUTPUT
   \<and> has_address_type (outputs (ack_output sample_invalid_spend))
   \<and> address_type (outputs (ack_output sample_invalid_spend)) = OutputAddressType_SPEND
   \<and> \<not> has_address (outputs (ack_output sample_invalid_spend))
   \<and> failures (new_events (sample_funded 1 sample_input)
        (signing_txack sample_env (ack_output sample_invalid_spend) (sample_funded 1 sample_input)))
       = [(Failure_Other, ''Invalid output address type'')]
   \<and> \<not> signing (signing_txack sample_env (ack_output sample_invalid_spend)
                   (sample_funded 1 sample_input))"
proof -
  have h1: "signing (sample_funded 1 sample_input)"
    by code_simp
  have h2: "signing_stage (sample_funded 1 sample_input) = STAGE_REQUEST_3_OUTPUT"
    by code_simp
  have h3: "\<not> (out_script_type (outputs (ack_output sample_invalid_spend))
                 = OutputScriptType_PAYTOMULTISIG
               \<and> out_has_multisig (outputs (ack_output sample_invalid_spend))
               \<and> multisig_fp_set (sample_funded 1 sample_input)
               \<and> \<not> multisig_fp_mismatch (sample_funded 1 sample_input))"
    by code_simp
  have h4: "has_address_type (outputs (ack_output sample_invalid_spend))"
    by code_simp
  have h5: "address_type (outputs (ack_output sample_invalid_spend)) = OutputAddressType_SPEND
            \<and> \<not> has_address (outputs (ack_output sample_invalid_spend))"
    by code_simp
  from h5 have h5':
    "(address_type (outputs (ack_output sample_invalid_spend)) = OutputAddressType_SPEND
        \<and> \<not> has_address (outputs (ack_output sample_invalid_spend)))
     \<or> ((address_type (outputs (ack_output sample_invalid_spend)) = OutputAddressType_TRANSFER
          \<or> address_type (outputs (ack_output sample_invalid_spend)) = OutputAddressType_CHANGE)
         \<and> out_address_n (outputs (ack_output sample_invalid_spend)) = [])"
    by (rule disjI1)
  from invalid_output_address_type [where env = sample_env, OF h1 h2 h3 h4 h5'] h1 h2 h4 h5
  show ?thesis by simp
qed

text \<open>
  C10 as stated fails. In a session whose input is multisig, an output to another
  multisig group enters the fingerprint comparison and is not classified as change; marked
  as a spend without an address, it is accepted and the engine goes on to the second phase.
\<close>

theorem invalid_output_address_type_counterexample:
  "has_address_type sample_multisig_output
   \<and> address_type sample_multisig_output = OutputAddressType_SPEND
   \<and> \<not> has_address sample_multisig_output
   \<and> signing (sample_funded 1 sample_multisig_input)
   \<and> signing_stage (sample_funded 1 sample_multisig_input) = STAGE_REQUEST_3_OUTPUT
   \<and> output_is_change sample_env sample_multisig_output (sample_funded 1 sample_multisig_input)
       = Inr False
   \<and> failures (new_events (sample_funded 1 sample_multisig_input)
        (signing_txack sample_env (ack_output sample_multisig_output)
           (sample_funded 1 sample_multisig_input))) = []
   \<and> signing_stage (signing_txack sample_env (ack_output sample_multisig_output)
        (sample_funded 1 sample_multisig_input)) = STAGE_REQUEST_4_INPUT"
  by code_simp

subsection \<open>The step of an active session\<close>

lemma tick_fields [simp]:
  "inputs_count (tick s) = inputs_count s"
  "outputs_count (tick s) = outputs_count s"
  "coin (tick s) = coin s"
  "root (tick s) = root s"
  "node (tick s) = node s"
  "signing (tick s) = signing s"
  "idx1 (tick s) = idx1 s"
  "idx2 (tick s) = idx2 s"
  "resp (tick s) = TxRequest_zero"
  "input (tick s) = input s"
  "bin_output (tick s) = bin_output s"
  "to (tick s) = to s"
  "tp (tick s) = tp s"
  "ti (tick s) = ti s"
  "tc (tick s) = tc s"
  "hash (tick s) = hash s"
  "hash_check (tick s) = hash_check s"
  "privkey (tick s) = privkey s"
  "pubkey (tick s) = pubkey s"
  "sig (tick s) = sig s"
  "to_spend (tick s) = to_spend s"
  "spending (tick s) = spending s"
  "change_spend (tick s) = change_spend s"
  "multisig_fp_set (tick s) = multisig_fp_set s"
  "multisig_fp_mismatch (tick s) = multisig_fp_mismatch s"
  "multisig_fp (tick s) = multisig_fp s"
  "signing_stage (tick s) = signing_stage s"
  by (simp_all add: tick_def progress_tick_def animating_progress_handler_def)

lemma tick_out: "out (tick s) = out s @ (if update_ctr s = 20 then [Progress] else [])"
  by (simp add: tick_def progress_tick_def animating_progress_handler_def)

lemma signing_txack_active:
  assumes "signing s"
  shows "signing_txack env tx s =
     (case signing_stage s of
          STAGE_REQUEST_1_INPUT \<Rightarrow> txack_1_input env tx (tick s)
        | STAGE_REQUEST_2_PREV_META \<Rightarrow> txack_2_prev_meta env tx (tick s)
        | STAGE_REQUEST_2_PREV_INPUT \<Rightarrow> txack_2_prev_input env tx (tick s)
        | STAGE_REQUEST_2_PREV_OUTPUT \<Rightarrow> txack_2_prev_output env tx (tick s)
        | STAGE_REQUEST_3_OUTPUT \<Rightarrow> txack_3_output env tx (tick s)
        | STAGE_REQUEST_4_INPUT \<Rightarrow> txack_4_input env tx (tick s)
        | STAGE_REQUEST_4_OUTPUT \<Rightarrow> txack_4_output env tx (tick s)
        | STAGE_REQUEST_5_OUTPUT \<Rightarrow> txack_5_output env tx (tick s))"
proof -
  have "signing_stage ((progress_tick s)\<lparr>resp := TxRequest_zero\<rparr>) = signing_stage s"
    by (simp add: progress_tick_def animating_progress_handler_def)
  with assms show ?thesis
    by (cases "signing_stage s") (simp_all add: signing_txack_def Let_def tick_def)
qed

lemma output_is_change_Inr_cong:
  assumes "multisig_fp_set s' = multisig_fp_set s"
    and "multisig_fp_mismatch s' = multisig_fp_mismatch s"
    and "multisig_fp s' = multisig_fp s"
  shows "(output_is_change env ou s' = Inr ch) = (output_is_change env ou s = Inr ch)"
  using assms by (auto simp: output_is_change_def split: prod.splits)


lemma is_change_tick [simp]: "is_change env ou (tick s) = is_change env ou s"
  by (simp add: is_change_def)

lemma txack_3_output_last:
  assumes "\<not> idx1 s0 < outputs_count s0 - 1"
    and "output_is_change env (outputs tx) s0 = Inr ch"
    and "ch \<longrightarrow> change_spend s0 = 0"
    and "compile_output env (coin s0) (root s0) (outputs tx) (\<not> ch) = (co, bo)"
    and "0 < co"
  shows "txack_3_output env tx s0 = txack_3_finish env (fee_check_state env tx ch bo s0)"
  using assms
  by (cases ch) (simp_all add: txack_3_output_def fee_check_state_def Let_def animating_progress_handler_def)

lemma signing_txack_last_output:
  assumes "signing s" and "signing_stage s = STAGE_REQUEST_3_OUTPUT"
    and "\<not> idx1 s < outputs_count s - 1"
    and "output_is_change env (outputs tx) s = Inr ch"
    and "ch \<longrightarrow> change_spend s = 0"
    and "compile_output env (coin s) (root s) (outputs tx) (\<not> ch) = (co, bo)"
    and "0 < co"
  shows "signing_txack env tx s = txack_3_finish env (fee_check_state env tx ch bo (tick s))"
proof -
  have c: "output_is_change env (outputs tx) (tick s) = Inr ch"
    using assms(4) output_is_change_Inr_cong [of "tick s" s env "outputs tx" ch] by simp
  have "signing_txack env tx s = txack_3_output env tx (tick s)"
    using assms(1,2) by (simp add: signing_txack_active)
  also have "\<dots> = txack_3_finish env (fee_check_state env tx ch bo (tick s))"
    by (rule txack_3_output_last [where co = co]) (use assms c in simp_all)
  finally show ?thesis .
qed

lemma fee_check_state_fields [simp]:
  "spending (fee_check_state env tx ch bo s) = spending s + amount (outputs tx)"
  "to_spend (fee_check_state env tx ch bo s) = to_spend s"
  "change_spend (fee_check_state env tx ch bo s) = (if ch then amount (outputs tx) else change_spend s)"
  "coin (fee_check_state env tx ch bo s) = coin s"
  "inputs_count (fee_check_state env tx ch bo s) = inputs_count s"
  "outputs_count (fee_check_state env tx ch bo s) = outputs_count s"
  "signing (fee_check_state env tx ch bo s) = signing s"
  "signing_stage (fee_check_state env tx ch bo s) = signing_stage s"
  "out (fee_check_state env tx ch bo s) = out s @ (if ch then [] else [Progress])"
  by (simp_all add: fee_check_state_def Let_def animating_progress_handler_def)

lemma confirm_transaction_body:
  "confirm_transaction env total_amount fee s
     = do_confirm env ButtonRequest_SignTx ''Transaction'' (transaction_body total_amount fee) s"
  by (simp add: confirm_transaction_def transaction_body_def)

lemma txack_3_finish_out:
  assumes "signing s"
  shows "out (txack_3_finish env s) = out s @ finish_events env s"
  using assms
  by (simp add: txack_3_finish_def finish_events_def final_events_def fee_threshold_def
      confirm_transaction_body do_confirm_def Let_def fsm_sendFailure_def go_home_def
      animating_progress_handler_def fail_abort_def signing_abort_def send_req_4_input_def
      msg_write_TxRequest_def split: prod.splits)

lemma txack_3_finish_fields:
  "spending (txack_3_finish env s) = spending s"
  "to_spend (txack_3_finish env s) = to_spend s"
  "change_spend (txack_3_finish env s) = change_spend s"
  by (simp_all add: txack_3_finish_def confirm_transaction_body do_confirm_def Let_def
      fsm_sendFailure_def go_home_def
      animating_progress_handler_def fail_abort_def signing_abort_def send_req_4_input_def
      msg_write_TxRequest_def split: prod.splits)

lemma txack_3_finish_poor:
  assumes "spending s > to_spend s"
  shows "signing_stage (txack_3_finish env s) = signing_stage s"
    and "signing (txack_3_finish env s) = signing s"
  using assms
  by (simp_all add: txack_3_finish_def Let_def fsm_sendFailure_def go_home_def split: prod.splits)

lemma new_events_append: "out s' = out s @ es \<Longrightarrow> new_events s s' = es"
  by (simp add: new_events_def)

lemma last_output_new_events:
  assumes "signing s" and "signing_stage s = STAGE_REQUEST_3_OUTPUT"
    and "\<not> idx1 s < outputs_count s - 1"
    and "output_is_change env (outputs tx) s = Inr ch"
    and "ch \<longrightarrow> change_spend s = 0"
    and "compile_output env (coin s) (root s) (outputs tx) (\<not> ch) = (co, bo)"
    and "0 < co"
  shows "new_events s (signing_txack env tx s)
           = (if update_ctr s = 20 then [Progress] else []) @ (if ch then [] else [Progress])
             @ finish_events env (fee_check_state env tx ch bo (tick s))"
proof -
  have e: "signing_txack env tx s = txack_3_finish env (fee_check_state env tx ch bo (tick s))"
    using assms by (rule signing_txack_last_output)
  have "signing (fee_check_state env tx ch bo (tick s))"
    using assms(1) by simp
  then have "out (signing_txack env tx s)
      = out (fee_check_state env tx ch bo (tick s))
        @ finish_events env (fee_check_state env tx ch bo (tick s))"
    unfolding e by (rule txack_3_finish_out)
  then show ?thesis
    by (intro new_events_append) (simp add: tick_out)
qed

lemma unat_fee:
  fixes sp ts :: u64
  assumes "\<not> ts < sp"
  shows "unat sp + unat (ts - sp) = unat ts"
proof -
  from assms have le: "sp \<le> ts" by simp
  then have "unat (ts - sp) = unat ts - unat sp" by (rule unat_sub)
  moreover from le have "unat sp \<le> unat ts" by (simp add: word_le_nat_alt)
  ultimately show ?thesis by simp
qed

subsection \<open>The end of the first phase\<close>

text \<open>
  What one acknowledgement does when it delivers the last output of the first phase
  (\<open>idx1\<close> is not below \<open>outputs_count - 1\<close>) and this output is classified, accepted and
  compiled: the engine sends the failure NotEnoughFunds with "Not enough funds" exactly
  when \<open>spending > to_spend\<close> for the totals after this output; this step then sends no
  request and leaves the stage at REQ_3_OUTPUT. Otherwise the fee is \<open>to_spend - spending\<close>:
  the subtraction does not wrap, \<open>spending + fee = to_spend\<close> as numbers, and every screen
  shown by this step (the fee screen, the final confirmation) displays this fee.
\<close>

lemma not_enough_funds_exactly:
  fixes env :: "('ctx, 'txs) env"
  defines "fee_str s' \<equiv> coin_amnt_to_str env (coin s') (to_spend s' - spending s')"
  assumes "signing s" and "signing_stage s = STAGE_REQUEST_3_OUTPUT"
    and "\<not> idx1 s < outputs_count s - 1"
    and "output_is_change env (outputs tx) s = Inr ch"
    and "ch \<longrightarrow> change_spend s = 0"
    and "compile_output env (coin s) (root s) (outputs tx) (\<not> ch) = (co, bo)"
    and "0 < co"
    and "s' = signing_txack env tx s"
  shows "spending s' = spending s + amount (outputs tx) \<and> to_spend s' = to_spend s
    \<and> ((failures (new_events s s') = [(Failure_NotEnoughFunds, ''Not enough funds'')])
          = (spending s' > to_spend s'))
    \<and> (spending s' > to_spend s'
         \<longrightarrow> requests (new_events s s') = [] \<and> signing_stage s' = STAGE_REQUEST_3_OUTPUT)
    \<and> (\<not> spending s' > to_spend s'
         \<longrightarrow> unat (spending s') + unat (to_spend s' - spending s') = unat (to_spend s')
           \<and> set (prompts ButtonRequest_FeeOverThreshold (new_events s s'))
                 \<subseteq> {(''Confirm Fee'', fee_str s')}
           \<and> set (prompts ButtonRequest_SignTx (new_events s s'))
                 \<subseteq> {(''Transaction'',
                        transaction_body
                          (coin_amnt_to_str env (coin s') (to_spend s' - change_spend s'))
                          (fee_str s'))}
           \<and> (prompts ButtonRequest_FeeOverThreshold (new_events s s') \<noteq> []
                \<or> prompts ButtonRequest_SignTx (new_events s s') \<noteq> []))"
proof -
  let ?s5 = "fee_check_state env tx ch bo (tick s)"
  have e: "s' = txack_3_finish env ?s5"
    unfolding assms(9) using assms(2-8) by (rule signing_txack_last_output)
  have ev: "new_events s s' = (if update_ctr s = 20 then [Progress] else [])
      @ (if ch then [] else [Progress]) @ finish_events env ?s5"
    unfolding assms(9) using assms(2-8) by (rule last_output_new_events)
  have f: "spending s' = spending s + amount (outputs tx)" "to_spend s' = to_spend s"
    "change_spend s' = change_spend ?s5"
    by (simp_all add: e txack_3_finish_fields)
  have c: "coin s' = coin s"
    by (simp add: e txack_3_finish_def confirm_transaction_body do_confirm_def Let_def
      fsm_sendFailure_def go_home_def animating_progress_handler_def fail_abort_def
      signing_abort_def send_req_4_input_def msg_write_TxRequest_def split: prod.splits)
  have st: "to_spend s < spending s + amount (outputs tx)
      \<Longrightarrow> signing_stage s' = STAGE_REQUEST_3_OUTPUT"
    using txack_3_finish_poor(1) [of ?s5 env] assms(3) by (simp add: e)
  have ev1: "(failures (new_events s s') = [(Failure_NotEnoughFunds, ''Not enough funds'')])
          = (spending s' > to_spend s')"
    by (simp add: ev f finish_events_def final_events_def Let_def)
  have ev2: "spending s' > to_spend s' \<Longrightarrow> requests (new_events s s') = []"
    by (simp add: ev f finish_events_def final_events_def Let_def)
  have ev3: "\<not> spending s' > to_spend s' \<Longrightarrow>
      set (prompts ButtonRequest_FeeOverThreshold (new_events s s'))
                 \<subseteq> {(''Confirm Fee'', fee_str s')}
           \<and> set (prompts ButtonRequest_SignTx (new_events s s'))
                 \<subseteq> {(''Transaction'',
                        transaction_body
                          (coin_amnt_to_str env (coin s') (to_spend s' - change_spend s'))
                          (fee_str s'))}
           \<and> (prompts ButtonRequest_FeeOverThreshold (new_events s s') \<noteq> []
                \<or> prompts ButtonRequest_SignTx (new_events s s') \<noteq> [])"
    by (simp add: ev f c fee_str_def finish_events_def final_events_def Let_def)
  show ?thesis
    using ev1 ev2 ev3 st f unat_fee [of "to_spend s'" "spending s'"] by simp
qed


lemma not_enough_funds_exactly_sample:
  "signing (sample_funded 1 sample_input)
   \<and> signing_stage (sample_funded 1 sample_input) = STAGE_REQUEST_3_OUTPUT
   \<and> to_spend (sample_funded 1 sample_input) = 100
   \<and> spending (signing_txack sample_env (ack_output (sample_output 150))
                 (sample_funded 1 sample_input)) = 150
   \<and> failures (new_events (sample_funded 1 sample_input)
        (signing_txack sample_env (ack_output (sample_output 150)) (sample_funded 1 sample_input)))
       = [(Failure_NotEnoughFunds, ''Not enough funds'')]
   \<and> requests (new_events (sample_funded 1 sample_input)
        (signing_txack sample_env (ack_output (sample_output 150)) (sample_funded 1 sample_input)))
       = []
   \<and> signing_stage (signing_txack sample_env (ack_output (sample_output 150))
                       (sample_funded 1 sample_input)) = STAGE_REQUEST_3_OUTPUT"
proof -
  let ?s = "sample_funded 1 sample_input"
  let ?tx = "ack_output (sample_output 150)"
  have h1: "signing ?s" by code_simp
  have h2: "signing_stage ?s = STAGE_REQUEST_3_OUTPUT" by code_simp
  have h3: "\<not> idx1 ?s < outputs_count ?s - 1" by code_simp
  have h4: "output_is_change sample_env (outputs ?tx) ?s = Inr False" by code_simp
  have h5: "False \<longrightarrow> change_spend ?s = 0" by simp
  have h6: "compile_output sample_env (coin ?s) (root ?s) (outputs ?tx) (\<not> False)
              = (1, \<lparr>bin_amount = 150, script_pubkey = [4]\<rparr>)" by code_simp
  have h7: "(0::int) < 1" by simp
  have ts: "to_spend ?s = 100" by code_simp
  have sp: "spending ?s + amount (outputs ?tx) = 150" by code_simp
  from not_enough_funds_exactly [OF h1 h2 h3 h4 h5 h6 h7 refl] h1 h2 ts sp
  show ?thesis by simp
qed

text \<open>
  C6, evaluated on the code. The claim is that a session whose outputs exceed its inputs
  fails with NotEnoughFunds and never starts the second phase. After an output of 150
  against inputs of 100 the engine sends NotEnoughFunds, but the session stays active in
  stage REQ_3_OUTPUT with \<open>spending = 150\<close>. A further acknowledgement with an output of
  \<open>2^64 - 100\<close> makes the 64-bit total wrap to 50: the check passes, the transaction is
  confirmed and the engine requests input 0 of the second phase.
\<close>

theorem not_enough_funds_not_final:
  "signing (sample_funded 1 sample_input)
   \<and> signing_stage (sample_funded 1 sample_input) = STAGE_REQUEST_3_OUTPUT
   \<and> to_spend sample_poor = 100 \<and> spending sample_poor = 150
   \<and> failures (new_events (sample_funded 1 sample_input) sample_poor)
       = [(Failure_NotEnoughFunds, ''Not enough funds'')]
   \<and> signing sample_poor \<and> signing_stage sample_poor = STAGE_REQUEST_3_OUTPUT
   \<and> amount sample_wrapping = 18446744073709551516
   \<and> spending (signing_txack sample_env (ack_output sample_wrapping) sample_poor) = 50
   \<and> failures (new_events sample_poor
        (signing_txack sample_env (ack_output sample_wrapping) sample_poor)) = []
   \<and> signing_stage (signing_txack sample_env (ack_output sample_wrapping) sample_poor)
       = STAGE_REQUEST_4_INPUT
   \<and> map (\<lambda>q. (request_type q, request_index (details q)))
        (requests (new_events sample_poor
           (signing_txack sample_env (ack_output sample_wrapping) sample_poor)))
       = [(RequestType_TXINPUT, 0)]"
  by code_simp

text \<open>
  What one acknowledgement does at the end of the output walk of the first phase with
  \<open>spending \<le> to_spend\<close>: the fee screen (button request FeeOverThreshold) is shown once
  by this step when the fee \<open>to_spend - spending\<close> is above \<open>tx_est_size * coin.maxfee_kb\<close>,
  and not at all when the fee is at or below it.
\<close>

lemma fee_prompt_exactly_once:
  assumes "signing s" and "signing_stage s = STAGE_REQUEST_3_OUTPUT"
    and "\<not> idx1 s < outputs_count s - 1"
    and "output_is_change env (outputs tx) s = Inr ch"
    and "ch \<longrightarrow> change_spend s = 0"
    and "compile_output env (coin s) (root s) (outputs tx) (\<not> ch) = (co, bo)"
    and "0 < co"
    and "s' = signing_txack env tx s"
    and "spending s' \<le> to_spend s'"
  shows "(to_spend s' - spending s' > fee_threshold env s
          \<longrightarrow> prompts ButtonRequest_FeeOverThreshold (new_events s s')
                = [(''Confirm Fee'', coin_amnt_to_str env (coin s) (to_spend s' - spending s'))])
       \<and> (to_spend s' - spending s' \<le> fee_threshold env s
          \<longrightarrow> prompts ButtonRequest_FeeOverThreshold (new_events s s') = [])"
proof -
  let ?s5 = "fee_check_state env tx ch bo (tick s)"
  have e: "s' = txack_3_finish env ?s5"
    unfolding assms(8) using assms(1-7) by (rule signing_txack_last_output)
  have ev: "new_events s s' = (if update_ctr s = 20 then [Progress] else [])
      @ (if ch then [] else [Progress]) @ finish_events env ?s5"
    unfolding assms(8) using assms(1-7) by (rule last_output_new_events)
  have f: "spending s' = spending s + amount (outputs tx)" "to_spend s' = to_spend s"
    by (simp_all add: e txack_3_finish_fields)
  have t: "fee_threshold env ?s5 = fee_threshold env s"
    by (simp add: fee_threshold_def)
  from assms(9) have le: "\<not> to_spend s < spending s + amount (outputs tx)"
    by (simp add: f)
  show ?thesis
    using le by (simp add: ev f t finish_events_def final_events_def Let_def not_le)
qed

lemma fee_prompt_exactly_once_sample:
  "signing sample_funded_cheap
   \<and> spending (signing_txack sample_env (ack_output (sample_output 90)) sample_funded_cheap)
       \<le> to_spend (signing_txack sample_env (ack_output (sample_output 90)) sample_funded_cheap)
   \<and> fee_threshold sample_env sample_funded_cheap = 5
   \<and> prompts ButtonRequest_FeeOverThreshold
        (new_events sample_funded_cheap
           (signing_txack sample_env (ack_output (sample_output 90)) sample_funded_cheap))
       = [(''Confirm Fee'', ''some BTC'')]"
proof -
  let ?s = sample_funded_cheap
  let ?tx = "ack_output (sample_output 90)"
  have h1: "signing ?s" by code_simp
  have h2: "signing_stage ?s = STAGE_REQUEST_3_OUTPUT" by code_simp
  have h3: "\<not> idx1 ?s < outputs_count ?s - 1" by code_simp
  have h4: "output_is_change sample_env (outputs ?tx) ?s = Inr False" by code_simp
  have h5: "False \<longrightarrow> change_spend ?s = 0" by simp
  have h6: "compile_output sample_env (coin ?s) (root ?s) (outputs ?tx) (\<not> False)
              = (1, \<lparr>bin_amount = 90, script_pubkey = [4]\<rparr>)" by code_simp
  have h7: "(0::int) < 1" by simp
  have h9: "spending (signing_txack sample_env ?tx ?s) \<le> to_spend (signing_txack sample_env ?tx ?s)"
    by code_simp
  have th: "fee_threshold sample_env ?s = 5" by code_simp
  have fee: "to_spend (signing_txack sample_env ?tx ?s) - spending (signing_txack sample_env ?tx ?s) = 10"
    by code_simp
  have str: "coin_amnt_to_str sample_env (coin ?s) 10 = ''some BTC''" by code_simp
  from fee_prompt_exactly_once [OF h1 h2 h3 h4 h5 h6 h7 refl h9] h1 h9 th fee str
  show ?thesis by simp
qed

text \<open>
  C9, evaluated on the code. The claim is that a session that ends its output walk with
  \<open>spending \<le> to_spend\<close> and a fee above the threshold shows the fee screen exactly
  once. When the user rejects the fee screen the session stays active in stage
  REQ_3_OUTPUT, and the next acknowledgement of an output ends the walk again and shows
  the fee screen again: twice within one session.
\<close>

theorem fee_prompt_twice:
  "signing sample_funded_cheap \<and> signing_stage sample_funded_cheap = STAGE_REQUEST_3_OUTPUT
   \<and> fee_threshold sample_fee_refusing_env sample_funded_cheap = 5
   \<and> to_spend sample_fee_refused = 100 \<and> spending sample_fee_refused = 90
   \<and> prompts ButtonRequest_FeeOverThreshold (new_events sample_funded_cheap sample_fee_refused)
       = [(''Confirm Fee'', ''some BTC'')]
   \<and> signing sample_fee_refused \<and> signing_stage sample_fee_refused = STAGE_REQUEST_3_OUTPUT
   \<and> spending (signing_txack sample_fee_refusing_env (ack_output (sample_output 0))
                 sample_fee_refused) = 90
   \<and> prompts ButtonRequest_FeeOverThreshold
        (new_events sample_funded_cheap
           (run sample_fee_refusing_env [ack_output (sample_output 90), ack_output (sample_output 0)]
              sample_funded_cheap))
       = [(''Confirm Fee'', ''some BTC''), (''Confirm Fee'', ''some BTC'')]"
  by code_simp

subsection \<open>The private key buffer\<close>

lemma privkey_effects [simp]:
  "privkey (fsm_sendFailure k msg s) = privkey s"
  "privkey (go_home s) = privkey s"
  "privkey (animating_progress_handler s) = privkey s"
  "privkey (msg_write_TxRequest s) = privkey s"
  "privkey (signing_abort s) = privkey s"
  "privkey (fail_abort k msg s) = privkey s"
  "privkey (snd (do_confirm env bt title body s)) = privkey s"
  "privkey (snd (confirm_transaction env total_amount fee s)) = privkey s"
  "privkey (send_req_1_input s) = privkey s"
  "privkey (send_req_2_prev_meta s) = privkey s"
  "privkey (send_req_2_prev_input s) = privkey s"
  "privkey (send_req_2_prev_output s) = privkey s"
  "privkey (send_req_3_output s) = privkey s"
  "privkey (send_req_4_input s) = privkey s"
  "privkey (send_req_4_output s) = privkey s"
  "privkey (send_req_5_output s) = privkey s"
  "privkey (send_req_finished s) = privkey s"
  by (simp_all add: effect_defs send_defs)

lemma privkey_txack_1_input: "privkey (txack_1_input env tx s) = privkey s"
  by (simp add: txack_1_input_def multisig_fp_step_def split: sum.splits prod.splits)

lemma privkey_txack_2_prev_meta: "privkey (txack_2_prev_meta env tx s) = privkey s"
  by (simp add: txack_2_prev_meta_def)

lemma privkey_txack_2_prev_input: "privkey (txack_2_prev_input env tx s) = privkey s"
  by (simp add: txack_2_prev_input_def Let_def split: prod.splits)

lemma privkey_txack_2_prev_output: "privkey (txack_2_prev_output env tx s) = privkey s"
  by (simp add: txack_2_prev_output_def Let_def split: prod.splits)

lemma privkey_txack_3_finish: "privkey (txack_3_finish env s) = privkey s"
  by (simp add: txack_3_finish_def Let_def confirm_transaction_body do_confirm_def split: prod.splits)

lemma privkey_txack_3_output: "privkey (txack_3_output env tx s) = privkey s"
  by (simp add: txack_3_output_def output_is_change_def Let_def privkey_txack_3_finish
      split: sum.splits prod.splits)

lemma privkey_fill_script_sig:
  "fill_script_sig env s = Inl s' \<Longrightarrow> privkey s' = privkey s"
  "fill_script_sig env s = Inr s' \<Longrightarrow> privkey s' = privkey s"
  by (auto simp: fill_script_sig_def Let_def split: if_splits)

lemma privkey_txack_4_sign: "privkey (txack_4_sign env s) = privkey s"
  by (auto simp: txack_4_sign_def Let_def split: sum.splits prod.splits dest!: privkey_fill_script_sig)

lemma privkey_txack_4_output: "privkey (txack_4_output env tx s) = privkey s"
  by (simp add: txack_4_output_def Let_def privkey_txack_4_sign split: prod.splits)

lemma privkey_txack_5_output: "privkey (txack_5_output env tx s) = privkey s"
  by (simp add: txack_5_output_def Let_def split: prod.splits)

lemma privkey_txack_4_input:
  "privkey (txack_4_input env tx s) =
     (if idx2 s = idx1 s \<and> key_prepared env (inputs tx) s
      then take 32 (private_key (snd (hdnode_private_ckd_cached env (root s) (address_n (inputs tx)))))
      else if idx2 s = 0 then replicate 32 0 else privkey s)"
  by (simp add: txack_4_input_def prepare_input_def key_prepared_def Let_def
      split: sum.splits prod.splits)


text \<open>
  C2 (as the code has it). The buffer \<open>privkey\<close> is written only by an acknowledgement
  processed in stage REQ_4_INPUT: it is zeroed when \<open>idx2 = 0\<close>, and it receives the
  private key of the derived node when \<open>idx2 = idx1\<close> and the key and the script have been
  obtained. \<open>signing_abort\<close> and every other stage leave it as it is, so a session exit
  does not wipe it.
\<close>

theorem privkey_lifetime:
  "privkey (signing_abort s) = privkey s
   \<and> (\<not> (signing s \<and> signing_stage s = STAGE_REQUEST_4_INPUT)
        \<longrightarrow> privkey (signing_txack env tx s) = privkey s)
   \<and> (signing s \<and> signing_stage s = STAGE_REQUEST_4_INPUT
        \<longrightarrow> privkey (signing_txack env tx s)
            = (if idx2 s = idx1 s \<and> key_prepared env (inputs tx) s
               then take 32 (private_key
                      (snd (hdnode_private_ckd_cached env (root s) (address_n (inputs tx)))))
               else if idx2 s = 0 then replicate 32 0
               else privkey s))"
proof -
  have a: "\<not> signing s \<Longrightarrow> privkey (signing_txack env tx s) = privkey s"
    by (simp add: signing_txack_def)
  have k: "key_prepared env (inputs tx) (tick s) = key_prepared env (inputs tx) s"
    by (simp add: key_prepared_def)
  have b: "signing s \<Longrightarrow> signing_stage s \<noteq> STAGE_REQUEST_4_INPUT
      \<Longrightarrow> privkey (signing_txack env tx s) = privkey s"
    by (cases "signing_stage s")
      (simp_all add: signing_txack_active privkey_txack_1_input privkey_txack_2_prev_meta
        privkey_txack_2_prev_input privkey_txack_2_prev_output privkey_txack_3_output
        privkey_txack_4_output privkey_txack_5_output)
  have c: "signing s \<Longrightarrow> signing_stage s = STAGE_REQUEST_4_INPUT
      \<Longrightarrow> privkey (signing_txack env tx s)
            = (if idx2 s = idx1 s \<and> key_prepared env (inputs tx) s
               then take 32 (private_key
                      (snd (hdnode_private_ckd_cached env (root s) (address_n (inputs tx)))))
               else if idx2 s = 0 then replicate 32 0
               else privkey s)"
    by (simp add: signing_txack_active privkey_txack_4_input k)
  show ?thesis
    using a b c by auto
qed

theorem privkey_lifetime_witness:
  "signing sample_signed \<and> signing_stage sample_signed = STAGE_REQUEST_5_OUTPUT
   \<and> privkey (signing_txack sample_env (ack_output (sample_output 90)) sample_signed)
       = privkey sample_signed
   \<and> signing sample_confirmed \<and> signing_stage sample_confirmed = STAGE_REQUEST_4_INPUT
   \<and> privkey (signing_txack sample_env (ack_input sample_input) sample_confirmed)
       = replicate 32 5"
proof -
  have h1: "signing sample_signed" by code_simp
  have h2: "signing_stage sample_signed = STAGE_REQUEST_5_OUTPUT" by code_simp
  have h3: "signing sample_confirmed" by code_simp
  have h4: "signing_stage sample_confirmed = STAGE_REQUEST_4_INPUT" by code_simp
  have h5: "idx2 sample_confirmed = idx1 sample_confirmed" by code_simp
  have h6: "key_prepared sample_env (inputs (ack_input sample_input)) sample_confirmed"
    by code_simp
  have h7: "take 32 (private_key (snd (hdnode_private_ckd_cached sample_env (root sample_confirmed)
               (address_n (inputs (ack_input sample_input)))))) = replicate 32 5"
    by code_simp
  from privkey_lifetime [of sample_signed sample_env "ack_output (sample_output 90)"]
    privkey_lifetime [of sample_confirmed sample_env "ack_input sample_input"]
    h1 h2 h3 h4 h5 h6 h7
  show ?thesis by simp
qed


text \<open>
  C2 as stated fails: after the sample session has ended with TXFINISHED, the buffer still
  holds the private key of the input that was signed.
\<close>

theorem privkey_not_wiped_counterexample:
  "request_type (last (requests (out sample_finished))) = RequestType_TXFINISHED
   \<and> \<not> signing sample_finished
   \<and> privkey sample_finished = replicate 32 5
   \<and> privkey sample_finished \<noteq> replicate 32 0"
  by code_simp

subsection \<open>Failures that leave the session active\<close>

text \<open>
  C3, evaluated on the code. The claim is that every failure ends the session. After an
  output of 150 against inputs of 100 the engine sends NotEnoughFunds once, but the session
  stays active, and the next acknowledgement is processed as an output again (and answered
  with NotEnoughFunds again) instead of "Not in Signing mode". The same holds after the
  user has rejected the fee screen: the next acknowledgement brings the fee screen back.
\<close>

theorem failure_not_terminal:
  "failures (new_events (sample_funded 1 sample_input) sample_poor)
     = [(Failure_NotEnoughFunds, ''Not enough funds'')]
   \<and> signing sample_poor
   \<and> failures (new_events sample_poor
        (signing_txack sample_env (ack_output (sample_output 150)) sample_poor))
       = [(Failure_NotEnoughFunds, ''Not enough funds'')]
   \<and> failures (new_events sample_funded_cheap sample_fee_refused)
       = [(Failure_ActionCancelled, ''Fee over threshold. Signing cancelled.'')]
   \<and> signing sample_fee_refused
   \<and> failures (new_events sample_fee_refused
        (signing_txack sample_fee_refusing_env (ack_output (sample_output 0)) sample_fee_refused))
       = [(Failure_ActionCancelled, ''Fee over threshold. Signing cancelled.'')]"
  by code_simp

subsection \<open>The kind of a cancellation\<close>

text \<open>
  C4, evaluated on the code. The claim is that every rejection by the user fails with the
  kind ActionCancelled. When the user rejects an output displayed in the first phase
  (\<open>compile_output\<close> returns a negative value), the failure sent has the kind Other.
\<close>

theorem output_rejection_kind:
  "signing (sample_funded 1 sample_input)
   \<and> signing_stage (sample_funded 1 sample_input) = STAGE_REQUEST_3_OUTPUT
   \<and> output_is_change sample_env sample_refused (sample_funded 1 sample_input) = Inr False
   \<and> fst (compile_output sample_env sample_coin sample_root sample_refused True) < 0
   \<and> failures (new_events (sample_funded 1 sample_input)
        (signing_txack sample_env (ack_output sample_refused) (sample_funded 1 sample_input)))
       = [(Failure_Other, ''Signing cancelled by user'')]"
  by code_simp

subsection \<open>Change outputs\<close>

text \<open>
  C7, evaluated on the code. The claim is that a second change output always fails. The
  engine remembers a change output by \<open>change_spend\<close> being non-zero: after a change
  output of amount 0, a second change output of 50 is accepted and the session goes on to
  the second phase.
\<close>

theorem two_change_outputs_accepted:
  "signing (sample_funded 2 sample_input)
   \<and> signing_stage (sample_funded 2 sample_input) = STAGE_REQUEST_3_OUTPUT
   \<and> output_is_change sample_env (sample_change 0 1) (sample_funded 2 sample_input) = Inr True
   \<and> output_is_change sample_env (sample_change 50 2)
        (signing_txack sample_env (ack_output (sample_change 0 1)) (sample_funded 2 sample_input))
       = Inr True
   \<and> failures (new_events (sample_funded 2 sample_input)
        (run sample_env [ack_output (sample_change 0 1), ack_output (sample_change 50 2)]
           (sample_funded 2 sample_input))) = []
   \<and> signing_stage
        (run sample_env [ack_output (sample_change 0 1), ack_output (sample_change 50 2)]
           (sample_funded 2 sample_input)) = STAGE_REQUEST_4_INPUT"
  by code_simp

text \<open>Once \<open>change_spend\<close> is not zero, an output classified as change is refused.\<close>

lemma second_change_refused:
  assumes "signing s" and "signing_stage s = STAGE_REQUEST_3_OUTPUT"
    and "output_is_change env (outputs tx) s = Inr True"
    and "change_spend s \<noteq> 0"
  shows "failures (new_events s (signing_txack env tx s))
           = [(Failure_Other, ''Only one change output allowed'')]
         \<and> \<not> signing (signing_txack env tx s)"
proof -
  have c: "output_is_change env (outputs tx) (tick s) = Inr True"
    using assms(3) output_is_change_Inr_cong [of "tick s" s env "outputs tx" True] by simp
  have "signing_txack env tx s = fail_abort Failure_Other ''Only one change output allowed'' (tick s)"
    using assms(1,2,4) by (simp add: signing_txack_active txack_3_output_def c)
  then show ?thesis
    using assms(1) by (simp add: new_events_def tick_out effect_defs)
qed

subsection \<open>What each case of the switch does\<close>













subsection \<open>The second phase, case by case\<close>























subsection \<open>The previous transaction\<close>






lemma run_snoc: "run env (txs @ [tx]) s = signing_txack env tx (run env txs s)"
  by (induction txs arbitrary: s) simp_all







subsection \<open>The checksum along a run\<close>


lemma checksum_ctx_Nil [simp]: "checksum_ctx env n_in n_out [] = tc_seed env n_in n_out"
  by (simp add: checksum_ctx_def)






















text \<open>
  With the same records in both phases the step can still end without a signature: here
  the held input is multisig and the library does not find the public key in its script.
\<close>

lemma same_records_unsigned:
  "signing sample_multisig_walk \<and> signing_stage sample_multisig_walk = STAGE_REQUEST_4_OUTPUT
   \<and> records sample_keyless_env sample_coin sample_root
        [ack_input sample_multisig_input, ack_output (sample_output 90)]
        (run sample_keyless_env
           [ack_input sample_multisig_input, ack_meta, ack_input TxInputType_zero, ack_prev_output,
            ack_output (sample_output 90)]
           (signing_init sample_keyless_env 1 1 sample_coin sample_root state_zero)) []
      = records sample_keyless_env sample_coin sample_root
          [ack_input sample_multisig_input, ack_meta, ack_input TxInputType_zero, ack_prev_output,
           ack_output (sample_output 90)]
          (signing_init sample_keyless_env 1 1 sample_coin sample_root state_zero) []
   \<and> failures (new_events sample_multisig_walk
        (signing_txack sample_keyless_env (ack_output (sample_output 90)) sample_multisig_walk))
       = [(Failure_Other, ''Pubkey not found in multisig script'')]
   \<and> requests (new_events sample_multisig_walk
        (signing_txack sample_keyless_env (ack_output (sample_output 90)) sample_multisig_walk))
       = []"
  by code_simp


end
